theory Spec2Isabelle
  imports Main "HOL-Library.Word"
begin

unbundle bit_operations_syntax

section \<open>Bytes, strings and slices\<close>

text \<open>
  A Go \<^verbatim>\<open>byte\<close> is an 8-bit word. A Go \<^verbatim>\<open>string\<close> is an immutable sequence of bytes and a
  \<^verbatim>\<open>[]byte\<close> is a sequence of bytes; both are byte lists here, and \<^verbatim>\<open>len\<close> is
  \<open>length\<close>. A string literal of the source is written \<open>bytes ''...''\<close>.
\<close>

type_synonym byte = "8 word"

definition bytes :: "string \<Rightarrow> byte list" where
  "bytes s = map of_char s"

text \<open>The byte \<^verbatim>\<open>'-'\<close>.\<close>

definition dash :: byte where
  "dash = of_char (CHR ''-'')"

text \<open>
  The builtin \<^verbatim>\<open>copy(dst, src)\<close>: the first \<^verbatim>\<open>min(len(dst), len(src))\<close> bytes of
  \<^verbatim>\<open>dst\<close> are overwritten with those of \<^verbatim>\<open>src\<close>; the rest of \<^verbatim>\<open>dst\<close> stays.
\<close>

definition copy :: "byte list \<Rightarrow> byte list \<Rightarrow> byte list" where
  "copy dst src = take (length dst) src @ drop (length src) dst"

text \<open>
  \<^verbatim>\<open>strings.ReplaceAll(s, old, new)\<close> for an \<^verbatim>\<open>old\<close> of one byte (the only use in the
  source is \<^verbatim>\<open>old = "-"\<close>): every occurrence of the byte is replaced by \<^verbatim>\<open>new\<close>.
\<close>

fun ReplaceAll :: "byte list \<Rightarrow> byte \<Rightarrow> byte list \<Rightarrow> byte list" where
  "ReplaceAll [] old new = []"
| "ReplaceAll (c # s) old new = (if c = old then new else [c]) @ ReplaceAll s old new"

section \<open>Errors\<close>

text \<open>
  The error values \<^verbatim>\<open>Parse\<close> can return: its own two
  (\<^verbatim>\<open>fmt.Errorf("Expected length 36, got %d", len(s))\<close> and
  \<^verbatim>\<open>errors.New("invalid UUID format")\<close>) and the two of \<^verbatim>\<open>encoding/hex\<close>
  (\<^verbatim>\<open>hex.InvalidByteError\<close> and \<^verbatim>\<open>hex.ErrLength\<close>). A \<^verbatim>\<open>nil\<close> error is \<open>None\<close>.
\<close>

datatype error =
    ExpectedLength36 nat
  | InvalidUUIDFormat
  | InvalidByteError byte
  | ErrLength

section \<open>encoding/hex\<close>

text \<open>
  \<^verbatim>\<open>hex.DecodeString\<close> of the Go standard library. \<open>fromHexChar\<close> is the value of a
  hexadecimal digit of either case; \<open>hex_Decode\<close> reads the source two bytes at a time,
  stops at the first byte that is no digit, and reports an odd length only after the
  last byte has been checked. The bytes decoded before an error are returned with it.
\<close>

definition fromHexChar :: "byte \<Rightarrow> byte option" where
  "fromHexChar c =
     (if of_char (CHR ''0'') \<le> c \<and> c \<le> of_char (CHR ''9'') then Some (c - of_char (CHR ''0''))
      else if of_char (CHR ''a'') \<le> c \<and> c \<le> of_char (CHR ''f'') then Some (c - of_char (CHR ''a'') + 10)
      else if of_char (CHR ''A'') \<le> c \<and> c \<le> of_char (CHR ''F'') then Some (c - of_char (CHR ''A'') + 10)
      else None)"

fun hex_Decode :: "byte list \<Rightarrow> byte list \<times> error option" where
  "hex_Decode (p # q # src) =
     (case fromHexChar p of
        None \<Rightarrow> ([], Some (InvalidByteError p))
      | Some a \<Rightarrow>
          (case fromHexChar q of
             None \<Rightarrow> ([], Some (InvalidByteError q))
           | Some b \<Rightarrow>
               (case hex_Decode src of (dst, err) \<Rightarrow> ((push_bit 4 a OR b) # dst, err))))"
| "hex_Decode [p] =
     (case fromHexChar p of
        None \<Rightarrow> ([], Some (InvalidByteError p))
      | Some a \<Rightarrow> ([], Some ErrLength))"
| "hex_Decode [] = ([], None)"

definition DecodeString :: "byte list \<Rightarrow> byte list \<times> error option" where
  "DecodeString s = hex_Decode s"

section \<open>The UUID type and its string codec\<close>

text \<open>
  \<^verbatim>\<open>type UUID [16]byte\<close>: an array of 16 bytes, here a byte list of length 16
  (\<open>is_UUID\<close>). The zero value of the type is sixteen zero bytes.
\<close>

type_synonym UUID = "byte list"

definition is_UUID :: "UUID \<Rightarrow> bool" where
  "is_UUID u = (length u = 16)"

definition zero_UUID :: UUID where
  "zero_UUID = replicate 16 0"

text \<open>
  \<^verbatim>\<open>Parse\<close> returns a UUID and an error, as the source does: on every error return the
  UUID is the variable \<^verbatim>\<open>uuid\<close> as declared, before the \<^verbatim>\<open>copy\<close>.
\<close>

definition Parse :: "byte list \<Rightarrow> UUID \<times> error option" where
  "Parse s =
     (let uuid = zero_UUID in
      if length s \<noteq> 36 then (uuid, Some (ExpectedLength36 (length s)))
      else if s ! 8 \<noteq> dash \<or> s ! 13 \<noteq> dash \<or> s ! 18 \<noteq> dash \<or> s ! 23 \<noteq> dash
        then (uuid, Some InvalidUUIDFormat)
      else
        (let s' = ReplaceAll s dash [] in
         case DecodeString s' of
           (dec, Some e) \<Rightarrow> (uuid, Some e)
         | (dec, None) \<Rightarrow> (copy uuid dec, None)))"

text \<open>
  \<^verbatim>\<open>MustParse\<close> either returns the UUID or panics. The panic is \<open>Inl\<close> of its payload:
  the string parsed and the error of \<^verbatim>\<open>Parse\<close>, from which the source builds the
  message \<^verbatim>\<open>"uuid: Parse(" + s + "): " + err.Error()\<close>.
\<close>

datatype panic = Panic "byte list" error

definition MustParse :: "byte list \<Rightarrow> panic + UUID" where
  "MustParse s =
     (case Parse s of
        (uuid, Some err) \<Rightarrow> Inl (Panic s err)
      | (uuid, None) \<Rightarrow> Inr uuid)"

definition hextable :: "byte list" where
  "hextable = bytes ''0123456789abcdef''"

text \<open>\<^verbatim>\<open>hextable[b]\<close> for a byte \<^verbatim>\<open>b\<close>.\<close>

definition hx :: "byte \<Rightarrow> byte" where
  "hx b = hextable ! unat b"

definition String :: "UUID \<Rightarrow> byte list" where
  "String uuid =
     (let formatted =
        [hx (drop_bit 4 (uuid ! 0)), hx (uuid ! 0 AND 0x0f),
         hx (drop_bit 4 (uuid ! 1)), hx (uuid ! 1 AND 0x0f),
         hx (drop_bit 4 (uuid ! 2)), hx (uuid ! 2 AND 0x0f),
         hx (drop_bit 4 (uuid ! 3)), hx (uuid ! 3 AND 0x0f),
         dash,
         hx (drop_bit 4 (uuid ! 4)), hx (uuid ! 4 AND 0x0f),
         hx (drop_bit 4 (uuid ! 5)), hx (uuid ! 5 AND 0x0f),
         dash,
         hx (drop_bit 4 (uuid ! 6)), hx (uuid ! 6 AND 0x0f),
         hx (drop_bit 4 (uuid ! 7)), hx (uuid ! 7 AND 0x0f),
         dash,
         hx (drop_bit 4 (uuid ! 8)), hx (uuid ! 8 AND 0x0f),
         hx (drop_bit 4 (uuid ! 9)), hx (uuid ! 9 AND 0x0f),
         dash,
         hx (drop_bit 4 (uuid ! 10)), hx (uuid ! 10 AND 0x0f),
         hx (drop_bit 4 (uuid ! 11)), hx (uuid ! 11 AND 0x0f),
         hx (drop_bit 4 (uuid ! 12)), hx (uuid ! 12 AND 0x0f),
         hx (drop_bit 4 (uuid ! 13)), hx (uuid ! 13 AND 0x0f),
         hx (drop_bit 4 (uuid ! 14)), hx (uuid ! 14 AND 0x0f),
         hx (drop_bit 4 (uuid ! 15)), hx (uuid ! 15 AND 0x0f)]
      in formatted)"

definition AppendFormatted :: "UUID \<Rightarrow> byte list \<Rightarrow> byte list" where
  "AppendFormatted uuid buf =
     (let formatted =
        [hx (drop_bit 4 (uuid ! 0)), hx (uuid ! 0 AND 0x0f),
         hx (drop_bit 4 (uuid ! 1)), hx (uuid ! 1 AND 0x0f),
         hx (drop_bit 4 (uuid ! 2)), hx (uuid ! 2 AND 0x0f),
         hx (drop_bit 4 (uuid ! 3)), hx (uuid ! 3 AND 0x0f),
         dash,
         hx (drop_bit 4 (uuid ! 4)), hx (uuid ! 4 AND 0x0f),
         hx (drop_bit 4 (uuid ! 5)), hx (uuid ! 5 AND 0x0f),
         dash,
         hx (drop_bit 4 (uuid ! 6)), hx (uuid ! 6 AND 0x0f),
         hx (drop_bit 4 (uuid ! 7)), hx (uuid ! 7 AND 0x0f),
         dash,
         hx (drop_bit 4 (uuid ! 8)), hx (uuid ! 8 AND 0x0f),
         hx (drop_bit 4 (uuid ! 9)), hx (uuid ! 9 AND 0x0f),
         dash,
         hx (drop_bit 4 (uuid ! 10)), hx (uuid ! 10 AND 0x0f),
         hx (drop_bit 4 (uuid ! 11)), hx (uuid ! 11 AND 0x0f),
         hx (drop_bit 4 (uuid ! 12)), hx (uuid ! 12 AND 0x0f),
         hx (drop_bit 4 (uuid ! 13)), hx (uuid ! 13 AND 0x0f),
         hx (drop_bit 4 (uuid ! 14)), hx (uuid ! 14 AND 0x0f),
         hx (drop_bit 4 (uuid ! 15)), hx (uuid ! 15 AND 0x0f)]
      in buf @ formatted)"

section \<open>Hash functions of the standard library\<close>

text \<open>
  \<^verbatim>\<open>crypto/md5\<close> and \<^verbatim>\<open>crypto/sha1\<close> are the Go standard library's implementations of
  RFC 1321 and FIPS 180-4. They are modelled on whole messages: \<open>md5_checkSum\<close> and
  \<open>sha1_checkSum\<close> map the bytes written since the last \<^verbatim>\<open>Reset\<close> to the digest, with
  the padding of \<^verbatim>\<open>checkSum\<close> and the block function \<^verbatim>\<open>blockGeneric\<close> of each package.
\<close>

type_synonym uint32 = "32 word"
type_synonym uint64 = "64 word"

text \<open>\<^verbatim>\<open>bits.RotateLeft32(x, k)\<close> for \<^verbatim>\<open>k \<ge> 0\<close>.\<close>

definition RotateLeft32 :: "uint32 \<Rightarrow> nat \<Rightarrow> uint32" where
  "RotateLeft32 x k = (let s = k mod 32 in push_bit s x OR drop_bit (32 - s) x)"

text \<open>Big-endian and little-endian loads and stores (\<^verbatim>\<open>internal/byteorder\<close>).\<close>

definition BEUint32 :: "byte list \<Rightarrow> uint32" where
  "BEUint32 b = ucast (b ! 3) OR push_bit 8 (ucast (b ! 2)) OR push_bit 16 (ucast (b ! 1))
     OR push_bit 24 (ucast (b ! 0))"

definition LEUint32 :: "byte list \<Rightarrow> uint32" where
  "LEUint32 b = ucast (b ! 0) OR push_bit 8 (ucast (b ! 1)) OR push_bit 16 (ucast (b ! 2))
     OR push_bit 24 (ucast (b ! 3))"

definition BEPutUint32 :: "uint32 \<Rightarrow> byte list" where
  "BEPutUint32 v = [ucast (drop_bit 24 v), ucast (drop_bit 16 v), ucast (drop_bit 8 v), ucast v]"

definition LEPutUint32 :: "uint32 \<Rightarrow> byte list" where
  "LEPutUint32 v = [ucast v, ucast (drop_bit 8 v), ucast (drop_bit 16 v), ucast (drop_bit 24 v)]"

definition BEPutUint64 :: "uint64 \<Rightarrow> byte list" where
  "BEPutUint64 v =
     [ucast (drop_bit 56 v), ucast (drop_bit 48 v), ucast (drop_bit 40 v), ucast (drop_bit 32 v),
      ucast (drop_bit 24 v), ucast (drop_bit 16 v), ucast (drop_bit 8 v), ucast v]"

definition LEPutUint64 :: "uint64 \<Rightarrow> byte list" where
  "LEPutUint64 v =
     [ucast v, ucast (drop_bit 8 v), ucast (drop_bit 16 v), ucast (drop_bit 24 v),
      ucast (drop_bit 32 v), ucast (drop_bit 40 v), ucast (drop_bit 48 v), ucast (drop_bit 56 v)]"

subsection \<open>SHA-1\<close>

definition sha1_init :: "uint32 list" where
  "sha1_init = [0x67452301, 0xEFCDAB89, 0x98BADCFE, 0x10325476, 0xC3D2E1F0]"

text \<open>
  Round \<open>i\<close> of the 80 rounds of a block. The state is the 16-word schedule \<^verbatim>\<open>w\<close>, used
  as a ring from round 16 on, and the working variables \<^verbatim>\<open>a, b, c, d, e\<close>.
\<close>

definition sha1_step ::
  "nat \<Rightarrow> uint32 list \<times> uint32 \<times> uint32 \<times> uint32 \<times> uint32 \<times> uint32 \<Rightarrow>
     uint32 list \<times> uint32 \<times> uint32 \<times> uint32 \<times> uint32 \<times> uint32" where
  "sha1_step i st =
     (case st of (w, a, b, c, d, e) \<Rightarrow>
        (let w' = (if i < 16 then w
                   else w[i mod 16 := RotateLeft32 (w ! ((i - 3) mod 16) XOR w ! ((i - 8) mod 16)
                          XOR w ! ((i - 14) mod 16) XOR w ! (i mod 16)) 1]);
             f = (if i < 20 then (b AND c) OR (NOT b AND d)
                  else if i < 40 then b XOR c XOR d
                  else if i < 60 then ((b OR c) AND d) OR (b AND c)
                  else b XOR c XOR d);
             k = (if i < 20 then 0x5A827999 else if i < 40 then 0x6ED9EBA1
                  else if i < 60 then 0x8F1BBCDC else 0xCA62C1D6);
             t = RotateLeft32 a 5 + f + e + w' ! (i mod 16) + k
         in (w', t, a, RotateLeft32 b 30, c, d)))"

definition sha1_chunk :: "uint32 list \<Rightarrow> byte list \<Rightarrow> uint32 list" where
  "sha1_chunk hs p =
     (let w = map (\<lambda>i. BEUint32 (drop (i * 4) p)) [0..<16] in
      case fold sha1_step [0..<80] (w, hs ! 0, hs ! 1, hs ! 2, hs ! 3, hs ! 4) of
        (w', a, b, c, d, e) \<Rightarrow> [hs ! 0 + a, hs ! 1 + b, hs ! 2 + c, hs ! 3 + d, hs ! 4 + e])"

function sha1_block :: "uint32 list \<Rightarrow> byte list \<Rightarrow> uint32 list" where
  "sha1_block hs p =
     (if 64 \<le> length p then sha1_block (sha1_chunk hs (take 64 p)) (drop 64 p) else hs)"
  by pat_completeness auto
termination
  by (relation "measure (\<lambda>(hs, p). length p)") auto

declare sha1_block.simps [simp del]

definition sha1_checkSum :: "byte list \<Rightarrow> byte list" where
  "sha1_checkSum msg =
     (let len = (of_nat (length msg) :: uint64);
          t = (if len mod 64 < 56 then 56 - len mod 64 else 64 + 56 - len mod 64);
          padlen = 0x80 # replicate (unat t - 1) 0 @ BEPutUint64 (push_bit 3 len);
          hs = sha1_block sha1_init (msg @ padlen)
      in concat (map BEPutUint32 hs))"

subsection \<open>MD5\<close>

definition md5_init :: "uint32 list" where
  "md5_init = [0x67452301, 0xEFCDAB89, 0x98BADCFE, 0x10325476]"

definition md5_T :: "uint32 list" where
  "md5_T =
     [0xd76aa478, 0xe8c7b756, 0x242070db, 0xc1bdceee, 0xf57c0faf, 0x4787c62a, 0xa8304613, 0xfd469501,
      0x698098d8, 0x8b44f7af, 0xffff5bb1, 0x895cd7be, 0x6b901122, 0xfd987193, 0xa679438e, 0x49b40821,
      0xf61e2562, 0xc040b340, 0x265e5a51, 0xe9b6c7aa, 0xd62f105d, 0x02441453, 0xd8a1e681, 0xe7d3fbc8,
      0x21e1cde6, 0xc33707d6, 0xf4d50d87, 0x455a14ed, 0xa9e3e905, 0xfcefa3f8, 0x676f02d9, 0x8d2a4c8a,
      0xfffa3942, 0x8771f681, 0x6d9d6122, 0xfde5380c, 0xa4beea44, 0x4bdecfa9, 0xf6bb4b60, 0xbebfbc70,
      0x289b7ec6, 0xeaa127fa, 0xd4ef3085, 0x04881d05, 0xd9d4d039, 0xe6db99e5, 0x1fa27cf8, 0xc4ac5665,
      0xf4292244, 0x432aff97, 0xab9423a7, 0xfc93a039, 0x655b59c3, 0x8f0ccc92, 0xffeff47d, 0x85845dd1,
      0x6fa87e4f, 0xfe2ce6e0, 0xa3014314, 0x4e0811a1, 0xf7537e82, 0xbd3af235, 0x2ad7d2bb, 0xeb86d391]"

definition md5_shift :: "nat \<Rightarrow> nat" where
  "md5_shift i =
     (if i < 16 then [7, 12, 17, 22] ! (i mod 4)
      else if i < 32 then [5, 9, 14, 20] ! (i mod 4)
      else if i < 48 then [4, 11, 16, 23] ! (i mod 4)
      else [6, 10, 15, 21] ! (i mod 4))"

text \<open>
  Step \<open>i\<close> of the 64 steps of a block, which the source writes out one by one: the
  variable assigned is \<^verbatim>\<open>a, d, c, b\<close> in turn, which is the rotation of the state here.
\<close>

definition md5_step ::
  "nat \<Rightarrow> uint32 list \<times> uint32 \<times> uint32 \<times> uint32 \<times> uint32 \<Rightarrow>
     uint32 list \<times> uint32 \<times> uint32 \<times> uint32 \<times> uint32" where
  "md5_step i st =
     (case st of (x, a, b, c, d) \<Rightarrow>
        (let f = (if i < 16 then ((c XOR d) AND b) XOR d
                  else if i < 32 then ((b XOR c) AND d) XOR c
                  else if i < 48 then b XOR c XOR d
                  else c XOR (b OR NOT d));
             g = (if i < 16 then i
                  else if i < 32 then (1 + 5 * i) mod 16
                  else if i < 48 then (5 + 3 * i) mod 16
                  else (7 * i) mod 16);
             a' = b + RotateLeft32 (f + a + x ! g + md5_T ! i) (md5_shift i)
         in (x, d, a', b, c)))"

definition md5_chunk :: "uint32 list \<Rightarrow> byte list \<Rightarrow> uint32 list" where
  "md5_chunk s q =
     (let x = map (\<lambda>i. LEUint32 (drop (i * 4) q)) [0..<16] in
      case fold md5_step [0..<64] (x, s ! 0, s ! 1, s ! 2, s ! 3) of
        (x', a, b, c, d) \<Rightarrow> [s ! 0 + a, s ! 1 + b, s ! 2 + c, s ! 3 + d])"

function md5_block :: "uint32 list \<Rightarrow> byte list \<Rightarrow> uint32 list" where
  "md5_block s p =
     (if 64 \<le> length p then md5_block (md5_chunk s (take 64 p)) (drop 64 p) else s)"
  by pat_completeness auto
termination
  by (relation "measure (\<lambda>(s, p). length p)") auto

declare md5_block.simps [simp del]

definition md5_checkSum :: "byte list \<Rightarrow> byte list" where
  "md5_checkSum msg =
     (let len = (of_nat (length msg) :: uint64);
          pad = (55 - len) mod 64;
          tmp = 0x80 # replicate (unat pad) 0 @ LEPutUint64 (push_bit 3 len);
          s = md5_block md5_init (msg @ tmp)
      in concat (map LEPutUint32 s))"

subsection \<open>The interface hash.Hash\<close>

text \<open>
  A \<^verbatim>\<open>hash.Hash\<close> value is one of the two implementations together with the bytes written
  to it since it was created or last reset. \<^verbatim>\<open>Sum(b)\<close> appends the digest of those bytes
  to \<^verbatim>\<open>b\<close> and leaves the hash unchanged.
\<close>

datatype hash_kind = MD5 | SHA1

record Hash =
  kind :: hash_kind
  written :: "byte list"

definition md5_New :: Hash where
  "md5_New = \<lparr>kind = MD5, written = []\<rparr>"

definition sha1_New :: Hash where
  "sha1_New = \<lparr>kind = SHA1, written = []\<rparr>"

definition Reset :: "Hash \<Rightarrow> Hash" where
  "Reset d = d\<lparr>written := []\<rparr>"

definition Write :: "Hash \<Rightarrow> byte list \<Rightarrow> Hash" where
  "Write d p = d\<lparr>written := written d @ p\<rparr>"

definition checkSum :: "Hash \<Rightarrow> byte list" where
  "checkSum d = (case kind d of MD5 \<Rightarrow> md5_checkSum (written d) | SHA1 \<Rightarrow> sha1_checkSum (written d))"

definition Sum :: "Hash \<Rightarrow> byte list \<Rightarrow> byte list" where
  "Sum d b = b @ checkSum d"

section \<open>The generator\<close>

text \<open>
  The struct \<^verbatim>\<open>Generator\<close>. The constructors take the namespace by value, so the slice
  \<^verbatim>\<open>namespace[:]\<close> they store is the generator's own copy of the 16 bytes.
\<close>

record Generator =
  h :: Hash
  namespace :: "byte list"
  buf :: "byte list"
  version :: int

definition NewMD5Gen :: "UUID \<Rightarrow> Generator" where
  "NewMD5Gen ns = \<lparr>h = md5_New, namespace = ns, buf = replicate 16 0, version = 3\<rparr>"

definition NewSHA1Gen :: "UUID \<Rightarrow> Generator" where
  "NewSHA1Gen ns = \<lparr>h = sha1_New, namespace = ns, buf = replicate 20 0, version = 5\<rparr>"

text \<open>
  \<^verbatim>\<open>Generate\<close> mutates the generator (its hash and its buffer) and the target: it returns
  both. \<^verbatim>\<open>hg.buf[0:0]\<close> is \<open>take 0\<close> of the buffer; the conversion \<^verbatim>\<open>uint8(...)\<close> keeps
  the low eight bits.
\<close>

definition Generate :: "Generator \<Rightarrow> UUID \<Rightarrow> byte list \<Rightarrow> Generator \<times> UUID" where
  "Generate hg target input =
     (let h1 = Reset (h hg);
          h2 = Write h1 (namespace hg);
          h3 = Write h2 input;
          buf' = Sum h3 (take 0 (buf hg));
          target1 = copy target buf';
          target2 = target1[6 := (target1 ! 6 AND 0x0f) OR of_int (push_bit 4 (version hg AND 0xf))];
          target3 = target2[8 := (target2 ! 8 AND 0x3f) OR 0x80]
      in (hg\<lparr>h := h3, buf := buf'\<rparr>, target3))"

section \<open>Notions used in the statements\<close>

text \<open>
  The two hexadecimal characters of a byte as \<^verbatim>\<open>String\<close> and \<^verbatim>\<open>AppendFormatted\<close> write
  them, and the hexadecimal text of a byte sequence.
\<close>

definition hexpair :: "byte \<Rightarrow> byte list" where
  "hexpair b = [hx (drop_bit 4 b), hx (b AND 0x0f)]"

definition hexenc :: "byte list \<Rightarrow> byte list" where
  "hexenc bs = concat (map hexpair bs)"

text \<open>
  A hexadecimal digit of either case, the ASCII lower-case form of a byte, and the
  canonical textual form: 36 bytes, \<^verbatim>\<open>'-'\<close> at positions 8, 13, 18 and 23 and a
  hexadecimal digit at each of the other 32.
\<close>

definition is_hex_digit :: "byte \<Rightarrow> bool" where
  "is_hex_digit c =
     ((of_char (CHR ''0'') \<le> c \<and> c \<le> of_char (CHR ''9''))
      \<or> (of_char (CHR ''a'') \<le> c \<and> c \<le> of_char (CHR ''f''))
      \<or> (of_char (CHR ''A'') \<le> c \<and> c \<le> of_char (CHR ''F'')))"

definition to_lower :: "byte \<Rightarrow> byte" where
  "to_lower c =
     (if of_char (CHR ''A'') \<le> c \<and> c \<le> of_char (CHR ''Z'')
      then c + (of_char (CHR ''a'') - of_char (CHR ''A'')) else c)"

definition canonical :: "byte list \<Rightarrow> bool" where
  "canonical s =
     (length s = 36 \<and>
      list_all (\<lambda>i. if i = 8 \<or> i = 13 \<or> i = 18 \<or> i = 23 then s ! i = dash
                     else is_hex_digit (s ! i)) [0..<36])"

text \<open>
  A generator in use: \<open>Generate_many hg calls\<close> is the generator after the calls of
  \<^verbatim>\<open>Generate\<close> listed, each with its target and its input.
\<close>

fun Generate_many :: "Generator \<Rightarrow> (UUID \<times> byte list) list \<Rightarrow> Generator" where
  "Generate_many hg [] = hg"
| "Generate_many hg (call # calls) = Generate_many (fst (Generate hg (fst call) (snd call))) calls"

text \<open>
  The name-based UUID of a digest, in the words of the specification: the first 16
  bytes of the digest, except that the high nibble of byte 6 is the version, with the
  low nibble of the digest, and the top two bits of byte 8 are binary 10, with the low
  six bits of the digest.
\<close>

definition name_based :: "byte list \<Rightarrow> byte \<Rightarrow> UUID \<Rightarrow> bool" where
  "name_based digest ver u =
     (length u = 16
      \<and> list_all (\<lambda>i. i = 6 \<or> i = 8 \<or> u ! i = digest ! i) [0..<16]
      \<and> drop_bit 4 (u ! 6) = ver \<and> u ! 6 AND 0x0f = digest ! 6 AND 0x0f
      \<and> drop_bit 6 (u ! 8) = 2 \<and> u ! 8 AND 0x3f = digest ! 8 AND 0x3f)"

text \<open>
  Addition of 32-bit words under a name of its own, for the rules that compute the
  rounds of SHA-1 and MD5 on numerals.
\<close>

definition add32 :: "uint32 \<Rightarrow> uint32 \<Rightarrow> uint32" where
  "add32 x y = x + y"


section \<open>Bytes and hexadecimal digits\<close>

lemma nibble_all:
  assumes "a < 16" and "list_all (\<lambda>n. P (of_nat n :: byte)) [0..<16]"
  shows "P a"
proof -
  from assms(1) have "unat a < 16" by (simp add: word_less_nat_alt)
  then have "unat a \<in> set [0..<16]" by simp
  with assms(2) have "P (of_nat (unat a))" unfolding list_all_iff by blast
  then show ?thesis by simp
qed

lemma byte_range_all:
  assumes "a \<le> c" and "c \<le> b"
    and "list_all (\<lambda>n. P (of_nat n :: byte)) [unat a..<Suc (unat b)]"
  shows "P c"
proof -
  from assms(1,2) have "unat a \<le> unat c" and "unat c \<le> unat b"
    by (simp_all add: word_le_nat_alt)
  then have "unat c \<in> set [unat a..<Suc (unat b)]" by auto
  with assms(3) have "P (of_nat (unat c))" unfolding list_all_iff by blast
  then show ?thesis by simp
qed

lemma hi_nibble_less: "drop_bit 4 (b :: byte) < 16"
proof -
  have "unat b < 2 ^ LENGTH(8)" by (rule unsigned_less)
  then have "unat b div 16 < 16" by simp
  then show ?thesis by (simp add: word_less_nat_alt unat_drop_bit_eq drop_bit_eq_div unat_div)
qed

lemma lo_nibble_less: "(b :: byte) AND 0x0f < 16"
proof -
  have "b AND 0x0f \<le> 0x0f" by (rule word_and_le1)
  then show ?thesis by (simp add: word_le_nat_alt word_less_nat_alt)
qed

lemma nibbles_join: "push_bit 4 (drop_bit 4 b) OR (b AND 0x0f) = (b :: byte)"
proof -
  have m: "(0x0f :: byte) = mask 4" by (simp add: mask_eq_exp_minus_1)
  show ?thesis unfolding m by (rule bit_word_eqI) (auto simp: bit_simps)
qed

lemma hx_nibble: "n < 16 \<Longrightarrow> fromHexChar (hx n) = Some n \<and> hx n \<noteq> dash"
  by (erule nibble_all) code_simp

lemma fromHexChar_hx_hi: "fromHexChar (hx (drop_bit 4 b)) = Some (drop_bit 4 b)"
  using hx_nibble [OF hi_nibble_less] by simp

lemma fromHexChar_hx_lo: "fromHexChar (hx (b AND 0x0f)) = Some (b AND 0x0f)"
  using hx_nibble [OF lo_nibble_less] by simp

lemma hexpair_no_dash: "dash \<notin> set (hexpair b)"
  using hx_nibble [OF hi_nibble_less, of b] hx_nibble [OF lo_nibble_less, of b]
  by (auto simp: hexpair_def)

lemma digit_value:
  assumes "is_hex_digit c"
  shows "case fromHexChar c of None \<Rightarrow> False | Some v \<Rightarrow> v < 16 \<and> hx v = to_lower c"
proof -
  let ?P = "\<lambda>c. case fromHexChar c of None \<Rightarrow> False | Some v \<Rightarrow> v < 16 \<and> hx v = to_lower c"
  from assms consider
      "of_char (CHR ''0'') \<le> c" "c \<le> of_char (CHR ''9'')"
    | "of_char (CHR ''a'') \<le> c" "c \<le> of_char (CHR ''f'')"
    | "of_char (CHR ''A'') \<le> c" "c \<le> of_char (CHR ''F'')"
    unfolding is_hex_digit_def by blast
  then show ?thesis
  proof cases
    case 1
    then show ?thesis by (rule byte_range_all [where P = ?P]) code_simp
  next
    case 2
    then show ?thesis by (rule byte_range_all [where P = ?P]) code_simp
  next
    case 3
    then show ?thesis by (rule byte_range_all [where P = ?P]) code_simp
  qed
qed

lemma hex_digit_not_dash: "is_hex_digit c \<Longrightarrow> c \<noteq> dash"
  by (auto simp: is_hex_digit_def dash_def)

text \<open>The digits that \<^verbatim>\<open>hex.DecodeString\<close> accepts are the hexadecimal digits of either case.\<close>

lemma fromHexChar_iff: "(fromHexChar c \<noteq> None) = is_hex_digit c"
  by (simp add: fromHexChar_def is_hex_digit_def)

lemma to_lower_dash: "to_lower dash = dash"
  by (simp add: to_lower_def dash_def)

lemma nibbles_split: "a < 16 \<Longrightarrow> b < 16 \<Longrightarrow>
    drop_bit 4 (push_bit 4 a OR b) = (a :: byte) \<and> (push_bit 4 a OR b) AND 0x0f = b"
  by (erule nibble_all, erule nibble_all) code_simp


subsection \<open>Parsing a grouped string\<close>

lemma ReplaceAll_append:
  "ReplaceAll (xs @ ys) old new = ReplaceAll xs old new @ ReplaceAll ys old new"
  by (induction xs) simp_all

lemma ReplaceAll_absent: "old \<notin> set s \<Longrightarrow> ReplaceAll s old new = s"
  by (induction s) auto

lemma ReplaceAll_grouped:
  assumes "dash \<notin> set a" "dash \<notin> set b" "dash \<notin> set c" "dash \<notin> set d" "dash \<notin> set e"
  shows "ReplaceAll (a @ dash # b @ dash # c @ dash # d @ dash # e) dash [] = a @ b @ c @ d @ e"
  using assms by (simp add: ReplaceAll_append ReplaceAll_absent)

lemma copy_zero_UUID: "length dec = 16 \<Longrightarrow> copy zero_UUID dec = dec"
  by (simp add: copy_def zero_UUID_def)

lemma Parse_grouped:
  assumes len: "length a = 8" "length b = 4" "length c = 4" "length d = 4" "length e = 12"
    and nd: "dash \<notin> set a" "dash \<notin> set b" "dash \<notin> set c" "dash \<notin> set d" "dash \<notin> set e"
  shows "Parse (a @ dash # b @ dash # c @ dash # d @ dash # e) =
     (case hex_Decode (a @ b @ c @ d @ e) of
        (dec, Some err) \<Rightarrow> (zero_UUID, Some err)
      | (dec, None) \<Rightarrow> (copy zero_UUID dec, None))"
proof -
  let ?s = "a @ dash # b @ dash # c @ dash # d @ dash # e"
  have l: "length ?s = 36" using len by simp
  have p8: "?s ! 8 = dash" using len by (simp add: nth_append)
  have p13: "?s ! 13 = dash" using len by (simp add: nth_append nth_Cons')
  have p18: "?s ! 18 = dash" using len by (simp add: nth_append nth_Cons')
  have p23: "?s ! 23 = dash" using len by (simp add: nth_append nth_Cons')
  have r: "ReplaceAll ?s dash [] = a @ b @ c @ d @ e"
    using nd by (rule ReplaceAll_grouped)
  show ?thesis
    unfolding Parse_def Let_def DecodeString_def r
    using l p8 p13 p18 p23 by (simp only: not_not refl if_False simp_thms)
qed

subsection \<open>Formatting, then parsing\<close>

lemma hex_Decode_hexenc: "hex_Decode (hexenc bs) = (bs, None)"
  by (induction bs)
    (simp_all add: hexenc_def hexpair_def fromHexChar_hx_hi fromHexChar_hx_lo nibbles_join)

lemma dash_notin_hexenc: "dash \<notin> set (hexenc bs)"
  by (simp add: hexenc_def hexpair_no_dash)

lemma length_hexenc: "length (hexenc bs) = 2 * length bs"
  by (induction bs) (simp_all add: hexenc_def hexpair_def)

lemma String_grouped:
  "String [b0, b1, b2, b3, b4, b5, b6, b7, b8, b9, b10, b11, b12, b13, b14, b15] =
     hexenc [b0, b1, b2, b3] @ dash # hexenc [b4, b5] @ dash # hexenc [b6, b7] @ dash #
     hexenc [b8, b9] @ dash # hexenc [b10, b11, b12, b13, b14, b15]"
  by (simp add: String_def hexenc_def hexpair_def)

lemma length_16_cases:
  assumes "length (u :: 'a list) = 16"
  obtains b0 b1 b2 b3 b4 b5 b6 b7 b8 b9 b10 b11 b12 b13 b14 b15
  where "u = [b0, b1, b2, b3, b4, b5, b6, b7, b8, b9, b10, b11, b12, b13, b14, b15]"
proof -
  have "u = map (\<lambda>i. u ! i) [0..<16]"
    using assms by (metis map_nth)
  also have "[0..<16] = [0, 1, 2, 3, 4, 5, 6, 7, 8, 9, 10, 11, 12, 13, 14, 15 :: nat]"
    by (simp add: upt_rec)
  finally show ?thesis using that by simp
qed

lemma Parse_String:
  assumes "is_UUID u"
  shows "Parse (String u) = (u, None)"
proof -
  from assms have "length u = 16" by (simp add: is_UUID_def)
  then obtain b0 b1 b2 b3 b4 b5 b6 b7 b8 b9 b10 b11 b12 b13 b14 b15
    where u: "u = [b0, b1, b2, b3, b4, b5, b6, b7, b8, b9, b10, b11, b12, b13, b14, b15]"
    by (rule length_16_cases)
  have "Parse (String u) =
     (case hex_Decode (hexenc [b0, b1, b2, b3] @ hexenc [b4, b5] @ hexenc [b6, b7] @
          hexenc [b8, b9] @ hexenc [b10, b11, b12, b13, b14, b15]) of
        (dec, Some err) \<Rightarrow> (zero_UUID, Some err)
      | (dec, None) \<Rightarrow> (copy zero_UUID dec, None))"
    unfolding u String_grouped
    by (rule Parse_grouped) (simp_all add: length_hexenc dash_notin_hexenc)
  also have "hexenc [b0, b1, b2, b3] @ hexenc [b4, b5] @ hexenc [b6, b7] @
          hexenc [b8, b9] @ hexenc [b10, b11, b12, b13, b14, b15] = hexenc u"
    unfolding u by (simp add: hexenc_def)
  finally show ?thesis
    using \<open>length u = 16\<close> by (simp add: hex_Decode_hexenc copy_zero_UUID)
qed

subsection \<open>Parsing a canonical string, then formatting\<close>

lemma hex_Decode_digits:
  assumes "list_all is_hex_digit cs" and "even (length cs)"
  shows "snd (hex_Decode cs) = None \<and> hexenc (fst (hex_Decode cs)) = map to_lower cs
         \<and> 2 * length (fst (hex_Decode cs)) = length cs"
  using assms
proof (induction cs rule: hex_Decode.induct)
  case (1 p q src)
  from 1(2) have hp: "is_hex_digit p" and hq: "is_hex_digit q" and hs: "list_all is_hex_digit src"
    by simp_all
  from 1(3) have ev: "even (length src)" by simp
  from digit_value [OF hp] obtain a where a: "fromHexChar p = Some a" "a < 16" "hx a = to_lower p"
    by (auto split: option.splits)
  from digit_value [OF hq] obtain b where b: "fromHexChar q = Some b" "b < 16" "hx b = to_lower q"
    by (auto split: option.splits)
  have ih: "snd (hex_Decode src) = None \<and> hexenc (fst (hex_Decode src)) = map to_lower src
         \<and> 2 * length (fst (hex_Decode src)) = length src"
    using 1(1) [OF a(1) b(1) hs ev] .
  have pair: "hexpair (push_bit 4 a OR b) = [to_lower p, to_lower q]"
    using nibbles_split [OF a(2) b(2)] a(3) b(3) by (simp add: hexpair_def)
  show ?case
    using ih pair a(1) b(1) by (cases "hex_Decode src") (simp add: hexenc_def)
next
  case (2 p)
  then show ?case by simp
next
  case 3
  then show ?case by (simp add: hexenc_def)
qed

lemma canonical_nth:
  assumes "canonical s" and "i < 36"
  shows "if i = 8 \<or> i = 13 \<or> i = 18 \<or> i = 23 then s ! i = dash else is_hex_digit (s ! i)"
  using assms unfolding canonical_def list_all_iff by simp

lemma canonical_split:
  assumes "canonical s"
  obtains a b c d e where "s = a @ dash # b @ dash # c @ dash # d @ dash # e"
    and "length a = 8" and "length b = 4" and "length c = 4" and "length d = 4" and "length e = 12"
    and "list_all is_hex_digit a" and "list_all is_hex_digit b" and "list_all is_hex_digit c"
    and "list_all is_hex_digit d" and "list_all is_hex_digit e"
proof -
  from assms have len: "length s = 36" by (simp add: canonical_def)
  have s8: "s ! 8 = dash" and s13: "s ! 13 = dash" and s18: "s ! 18 = dash" and s23: "s ! 23 = dash"
    using canonical_nth [OF assms, of 8] canonical_nth [OF assms, of 13]
      canonical_nth [OF assms, of 18] canonical_nth [OF assms, of 23] by simp_all
  have hexd: "is_hex_digit (s ! i)" if "i < 36" "i \<noteq> 8" "i \<noteq> 13" "i \<noteq> 18" "i \<noteq> 23" for i
    using canonical_nth [OF assms that(1)] that(2-) by simp
  have 1: "s = take 8 s @ s ! 8 # drop 9 s"
    using len id_take_nth_drop [of 8 s] by simp
  have 2: "drop 9 s = take 4 (drop 9 s) @ s ! 13 # drop 14 s"
    using len id_take_nth_drop [of 4 "drop 9 s"] by simp
  have 3: "drop 14 s = take 4 (drop 14 s) @ s ! 18 # drop 19 s"
    using len id_take_nth_drop [of 4 "drop 14 s"] by simp
  have 4: "drop 19 s = take 4 (drop 19 s) @ s ! 23 # drop 24 s"
    using len id_take_nth_drop [of 4 "drop 19 s"] by simp
  have eq: "s = take 8 s @ dash # take 4 (drop 9 s) @ dash # take 4 (drop 14 s) @ dash #
      take 4 (drop 19 s) @ dash # drop 24 s"
    using 1 2 3 4 s8 s13 s18 s23 by metis
  show ?thesis
  proof (rule that [OF eq])
    show "length (take 8 s) = 8" "length (take 4 (drop 9 s)) = 4" "length (take 4 (drop 14 s)) = 4"
      "length (take 4 (drop 19 s)) = 4" "length (drop 24 s) = 12"
      using len by simp_all
    show "list_all is_hex_digit (take 8 s)"
      using len by (auto simp: list_all_length intro!: hexd)
    show "list_all is_hex_digit (take 4 (drop 9 s))"
      using len by (auto simp: list_all_length intro!: hexd)
    show "list_all is_hex_digit (take 4 (drop 14 s))"
      using len by (auto simp: list_all_length intro!: hexd)
    show "list_all is_hex_digit (take 4 (drop 19 s))"
      using len by (auto simp: list_all_length intro!: hexd)
    show "list_all is_hex_digit (drop 24 s)"
      using len by (auto simp: list_all_length intro!: hexd)
  qed
qed

lemma digits_no_dash: "list_all is_hex_digit cs \<Longrightarrow> dash \<notin> set cs"
  using hex_digit_not_dash by (auto simp: list_all_iff)

lemma String_Parse_canonical:
  assumes "canonical s"
  shows "snd (Parse s) = None \<and> String (fst (Parse s)) = map to_lower s"
proof -
  from assms obtain a b c d e where s: "s = a @ dash # b @ dash # c @ dash # d @ dash # e"
    and len: "length a = 8" "length b = 4" "length c = 4" "length d = 4" "length e = 12"
    and dig: "list_all is_hex_digit a" "list_all is_hex_digit b" "list_all is_hex_digit c"
      "list_all is_hex_digit d" "list_all is_hex_digit e"
    by (rule canonical_split)
  let ?cs = "a @ b @ c @ d @ e"
  let ?dec = "fst (hex_Decode ?cs)"
  have P: "Parse s = (case hex_Decode ?cs of
        (dec, Some err) \<Rightarrow> (zero_UUID, Some err)
      | (dec, None) \<Rightarrow> (copy zero_UUID dec, None))"
    unfolding s using len dig by (intro Parse_grouped digits_no_dash)
  have "list_all is_hex_digit ?cs" and "even (length ?cs)"
    using dig len by simp_all
  from hex_Decode_digits [OF this]
  have ok: "snd (hex_Decode ?cs) = None" and enc: "hexenc ?dec = map to_lower ?cs"
    and l2: "2 * length ?dec = length ?cs" by simp_all
  from l2 len have l16: "length ?dec = 16" by simp
  from P ok l16 have Pd: "Parse s = (?dec, None)"
    by (simp add: copy_zero_UUID split: prod.splits)
  from l16 obtain b0 b1 b2 b3 b4 b5 b6 b7 b8 b9 b10 b11 b12 b13 b14 b15
    where d: "?dec = [b0, b1, b2, b3, b4, b5, b6, b7, b8, b9, b10, b11, b12, b13, b14, b15]"
    by (rule length_16_cases)
  have "hexenc [b0, b1, b2, b3] @ hexenc [b4, b5] @ hexenc [b6, b7] @ hexenc [b8, b9] @
      hexenc [b10, b11, b12, b13, b14, b15] =
      map to_lower a @ map to_lower b @ map to_lower c @ map to_lower d @ map to_lower e"
    using enc unfolding d by (simp add: hexenc_def)
  then have parts: "hexenc [b0, b1, b2, b3] = map to_lower a" "hexenc [b4, b5] = map to_lower b"
    "hexenc [b6, b7] = map to_lower c" "hexenc [b8, b9] = map to_lower d"
    "hexenc [b10, b11, b12, b13, b14, b15] = map to_lower e"
    using len by (simp_all add: length_hexenc)
  have "String ?dec = map to_lower s"
    unfolding d String_grouped parts s by (simp add: to_lower_dash)
  with Pd show ?thesis by simp
qed

section \<open>Claims about the string codec\<close>

text \<open>
  Claim C6. For every UUID \<open>u\<close> and every byte buffer \<open>b\<close>, \<^verbatim>\<open>AppendFormatted\<close> returns
  \<open>b\<close> followed by exactly the 36 bytes of \<^verbatim>\<open>String\<close>: the bytes of \<open>b\<close> are unchanged, and on
  the empty buffer the two renderings are the same bytes.
\<close>

theorem AppendFormatted_String:
  "AppendFormatted u b = b @ String u
   \<and> length (String u) = 36
   \<and> length (AppendFormatted u b) = length b + 36
   \<and> take (length b) (AppendFormatted u b) = b
   \<and> AppendFormatted u [] = String u"
  by (simp add: AppendFormatted_def String_def)

text \<open>
  Claim C7. For every 16-byte UUID \<open>u\<close>, whatever its version and variant bits,
  \<^verbatim>\<open>Parse(String(u))\<close> succeeds and returns \<open>u\<close>.
\<close>

theorem Parse_String_roundtrip:
  "is_UUID u \<Longrightarrow> Parse (String u) = (u, None)"
  by (rule Parse_String)

theorem Parse_String_roundtrip_witness:
  "is_UUID [0xff, 0xfe, 0x00, 0x01, 0x7f, 0x80, 0xf3, 0x3f, 0x0a, 0xa0, 0x10, 0x01, 0x55, 0xaa, 0xde, 0xad]
   \<and> Parse (String [0xff, 0xfe, 0x00, 0x01, 0x7f, 0x80, 0xf3, 0x3f, 0x0a, 0xa0, 0x10, 0x01, 0x55, 0xaa, 0xde, 0xad])
       = ([0xff, 0xfe, 0x00, 0x01, 0x7f, 0x80, 0xf3, 0x3f, 0x0a, 0xa0, 0x10, 0x01, 0x55, 0xaa, 0xde, 0xad], None)"
proof -
  have u: "is_UUID [0xff, 0xfe, 0x00, 0x01, 0x7f, 0x80, 0xf3, 0x3f, 0x0a, 0xa0, 0x10, 0x01, 0x55, 0xaa, 0xde, 0xad]"
    by (simp add: is_UUID_def)
  show ?thesis using u Parse_String_roundtrip [OF u] by simp
qed

text \<open>
  Claim C9. \<^verbatim>\<open>MustParse(s)\<close> returns a UUID exactly when \<^verbatim>\<open>Parse(s)\<close> succeeds, and then
  the UUID of \<^verbatim>\<open>Parse\<close>; it panics exactly when \<^verbatim>\<open>Parse(s)\<close> returns an error.
\<close>

theorem MustParse_Parse:
  "(MustParse s = Inr u) = (Parse s = (u, None))
   \<and> (\<exists>p. MustParse s = Inl p) = (snd (Parse s) \<noteq> None)
   \<and> (\<exists>v. MustParse s = Inr v) = (snd (Parse s) = None)"
  by (cases "Parse s") (auto simp: MustParse_def split: option.splits)

theorem MustParse_Parse_witness:
  "Parse (bytes ''00000000-0000-0000-0000-000000000000'') = ([0, 0, 0, 0, 0, 0, 0, 0, 0, 0, 0, 0, 0, 0, 0, 0], None)
   \<and> MustParse (bytes ''00000000-0000-0000-0000-000000000000'') = Inr ([0, 0, 0, 0, 0, 0, 0, 0, 0, 0, 0, 0, 0, 0, 0, 0])
   \<and> snd (Parse (bytes ''0000'')) \<noteq> None
   \<and> (\<exists>p. MustParse (bytes ''0000'') = Inl p)"
proof -
  have ok: "Parse (bytes ''00000000-0000-0000-0000-000000000000'') = ([0, 0, 0, 0, 0, 0, 0, 0, 0, 0, 0, 0, 0, 0, 0, 0], None)"
    by (simp add: Parse_def bytes_def dash_def DecodeString_def copy_def zero_UUID_def fromHexChar_def)
  have bad: "snd (Parse (bytes ''0000'')) \<noteq> None"
    by (simp add: Parse_def bytes_def)
  show ?thesis
    using ok bad
      MustParse_Parse [of "bytes ''00000000-0000-0000-0000-000000000000''" "[0, 0, 0, 0, 0, 0, 0, 0, 0, 0, 0, 0, 0, 0, 0, 0]"]
      MustParse_Parse [of "bytes ''0000''"]
    by simp
qed

text \<open>
  Claim C10. Whenever \<^verbatim>\<open>Parse(s)\<close> returns an error, the UUID returned with it is the
  all-zero UUID.
\<close>

theorem Parse_error_zero:
  "snd (Parse s) \<noteq> None \<Longrightarrow> fst (Parse s) = replicate 16 0"
  by (auto simp: Parse_def Let_def zero_UUID_def split: if_splits prod.splits option.splits)

theorem Parse_error_zero_witness:
  "snd (Parse (bytes ''12345678-1234-1234-1234-12345678901g'')) \<noteq> None
   \<and> fst (Parse (bytes ''12345678-1234-1234-1234-12345678901g'')) = replicate 16 0"
proof -
  have e: "snd (Parse (bytes ''12345678-1234-1234-1234-12345678901g'')) \<noteq> None"
    by (simp add: Parse_def bytes_def dash_def DecodeString_def fromHexChar_def)
  show ?thesis using e Parse_error_zero [OF e] by simp
qed

text \<open>
  Claim C3. For every canonical 36-character string \<open>s\<close> (hyphens at positions 8, 13, 18
  and 23, hexadecimal digits of either case elsewhere), \<^verbatim>\<open>Parse(s)\<close> succeeds and
  \<^verbatim>\<open>Parse(s).String()\<close> is the lower-case form of \<open>s\<close>; when \<open>s\<close> has no upper-case letter
  the round trip is the identity.
\<close>

theorem Parse_then_String_lowercase:
  "canonical s \<Longrightarrow>
     snd (Parse s) = None
     \<and> String (fst (Parse s)) = map to_lower s
     \<and> (list_all (\<lambda>c. to_lower c = c) s \<longrightarrow> String (fst (Parse s)) = s)"
proof -
  assume c: "canonical s"
  have "list_all (\<lambda>c. to_lower c = c) s \<Longrightarrow> map to_lower s = s"
    by (simp add: list_all_iff map_idI)
  with String_Parse_canonical [OF c] show ?thesis by auto
qed

theorem Parse_then_String_lowercase_witness:
  "canonical (bytes ''15588635-A45E-4867-aadb-DBF0385ADE95'')
   \<and> snd (Parse (bytes ''15588635-A45E-4867-aadb-DBF0385ADE95'')) = None
   \<and> String (fst (Parse (bytes ''15588635-A45E-4867-aadb-DBF0385ADE95'')))
       = bytes ''15588635-a45e-4867-aadb-dbf0385ade95''"
proof -
  have c: "canonical (bytes ''15588635-A45E-4867-aadb-DBF0385ADE95'')"
    by (simp add: canonical_def bytes_def dash_def is_hex_digit_def upt_rec)
  have l: "map to_lower (bytes ''15588635-A45E-4867-aadb-DBF0385ADE95'')
      = bytes ''15588635-a45e-4867-aadb-dbf0385ade95''"
    by (simp add: bytes_def to_lower_def)
  show ?thesis using c l Parse_then_String_lowercase [OF c] by simp
qed

text \<open>
  Claim C1. \<^verbatim>\<open>Parse\<close> is claimed to fail whenever one of the 32 characters outside
  positions 8, 13, 18 and 23 is no hexadecimal digit. It does not: \<^verbatim>\<open>ReplaceAll\<close> removes
  every \<^verbatim>\<open>'-'\<close>, also those at the other positions, so an input with an even number of
  stray hyphens there is decoded from fewer than 32 digits, and the bytes of the UUID
  that are not decoded stay zero.
\<close>

theorem Parse_accepts_stray_hyphens:
  "length (bytes ''12345678-1234-1234-1234-1234567890--'') = 36
   \<and> \<not> is_hex_digit (bytes ''12345678-1234-1234-1234-1234567890--'' ! 34)
   \<and> \<not> is_hex_digit (bytes ''12345678-1234-1234-1234-1234567890--'' ! 35)
   \<and> \<not> canonical (bytes ''12345678-1234-1234-1234-1234567890--'')
   \<and> Parse (bytes ''12345678-1234-1234-1234-1234567890--'') =
       ([0x12, 0x34, 0x56, 0x78, 0x12, 0x34, 0x12, 0x34, 0x12, 0x34, 0x12, 0x34, 0x56, 0x78, 0x90, 0x00], None)
   \<and> Parse (bytes ''------------------------------------'') = (replicate 16 0, None)"
proof -
  have 1: "\<not> is_hex_digit (bytes ''12345678-1234-1234-1234-1234567890--'' ! 34)"
    by (simp add: bytes_def is_hex_digit_def)
  have 2: "\<not> is_hex_digit (bytes ''12345678-1234-1234-1234-1234567890--'' ! 35)"
    by (simp add: bytes_def is_hex_digit_def)
  have 3: "\<not> canonical (bytes ''12345678-1234-1234-1234-1234567890--'')"
  proof
    assume "canonical (bytes ''12345678-1234-1234-1234-1234567890--'')"
    then have "is_hex_digit (bytes ''12345678-1234-1234-1234-1234567890--'' ! 34)"
      by (simp add: canonical_def list_all_iff)
    with 1 show False by simp
  qed
  have 4: "Parse (bytes ''12345678-1234-1234-1234-1234567890--'') =
       ([0x12, 0x34, 0x56, 0x78, 0x12, 0x34, 0x12, 0x34, 0x12, 0x34, 0x12, 0x34, 0x56, 0x78, 0x90, 0x00], None)"
    by (simp add: Parse_def bytes_def dash_def DecodeString_def copy_def zero_UUID_def fromHexChar_def)
  have 5: "Parse (bytes ''------------------------------------'') = (replicate 16 0, None)"
    by (simp add: Parse_def bytes_def dash_def DecodeString_def copy_def zero_UUID_def)
  have 0: "length (bytes ''12345678-1234-1234-1234-1234567890--'') = 36"
    by (simp add: bytes_def)
  from 0 1 2 3 4 5 show ?thesis by blast
qed

theorem Parse_accepts_stray_hyphens_witness:
  "snd (Parse (bytes ''12345678-1234-1234-1234-1234567890--'')) = None
   \<and> fst (Parse (bytes ''12345678-1234-1234-1234-1234567890--'')) ! 15 = 0
   \<and> snd (Parse (bytes ''------------------------------------'')) = None"
  using Parse_accepts_stray_hyphens by simp

section \<open>Digests and the generator\<close>

lemma length_concat_BEPutUint32: "length (concat (map BEPutUint32 hs)) = 4 * length hs"
  by (induction hs) (simp_all add: BEPutUint32_def)

lemma length_concat_LEPutUint32: "length (concat (map LEPutUint32 hs)) = 4 * length hs"
  by (induction hs) (simp_all add: LEPutUint32_def)

lemma length_sha1_chunk: "length (sha1_chunk hs p) = 5"
  by (simp add: sha1_chunk_def Let_def split: prod.splits)

lemma length_sha1_block: "length hs = 5 \<Longrightarrow> length (sha1_block hs p) = 5"
proof (induction hs p rule: sha1_block.induct)
  case (1 hs p)
  show ?case
  proof (cases "64 \<le> length p")
    case True
    then show ?thesis
      using "1.IH" [OF True length_sha1_chunk] by (subst sha1_block.simps) simp
  next
    case False
    then show ?thesis using "1.prems" by (subst sha1_block.simps) simp
  qed
qed

lemma length_sha1_checkSum: "length (sha1_checkSum msg) = 20"
  by (simp add: sha1_checkSum_def Let_def length_concat_BEPutUint32 length_sha1_block sha1_init_def)

lemma length_md5_chunk: "length (md5_chunk s q) = 4"
  by (simp add: md5_chunk_def Let_def split: prod.splits)

lemma length_md5_block: "length s = 4 \<Longrightarrow> length (md5_block s p) = 4"
proof (induction s p rule: md5_block.induct)
  case (1 s p)
  show ?case
  proof (cases "64 \<le> length p")
    case True
    then show ?thesis
      using "1.IH" [OF True length_md5_chunk] by (subst md5_block.simps) simp
  next
    case False
    then show ?thesis using "1.prems" by (subst md5_block.simps) simp
  qed
qed

lemma length_md5_checkSum: "length (md5_checkSum msg) = 16"
  by (simp add: md5_checkSum_def Let_def length_concat_LEPutUint32 length_md5_block md5_init_def)


subsection \<open>The target of a call\<close>

lemma length_checkSum: "16 \<le> length (checkSum d)"
  by (cases "kind d") (simp_all add: checkSum_def length_md5_checkSum length_sha1_checkSum)

lemma Generate_many_fields:
  "kind (h (Generate_many hg calls)) = kind (h hg)
   \<and> namespace (Generate_many hg calls) = namespace hg
   \<and> version (Generate_many hg calls) = version hg"
  by (induction calls arbitrary: hg)
    (simp_all add: Generate_def Let_def Write_def Reset_def)

lemma copy_digest:
  assumes "length t = 16" and "16 \<le> length dg"
  shows "copy t dg = take 16 dg"
  using assms by (simp add: copy_def)

text \<open>The target after a call, as a function of the hash, the namespace, the version and the input.\<close>

lemma Generate_target:
  assumes "is_UUID t"
  shows "snd (Generate hg t input) =
    (let dg = checkSum \<lparr>kind = kind (h hg), written = namespace hg @ input\<rparr>;
         t1 = take 16 dg;
         t2 = t1[6 := (t1 ! 6 AND 0x0f) OR of_int (push_bit 4 (version hg AND 0xf))]
     in t2[8 := (t2 ! 8 AND 0x3f) OR 0x80])"
proof -
  let ?d = "\<lparr>kind = kind (h hg), written = namespace hg @ input\<rparr>"
  have w: "Write (Write (Reset (h hg)) (namespace hg)) input = ?d"
    by (simp add: Write_def Reset_def)
  have c: "copy t (checkSum ?d) = take 16 (checkSum ?d)"
    using assms length_checkSum by (intro copy_digest) (simp_all add: is_UUID_def)
  show ?thesis
    unfolding Generate_def Let_def w by (simp add: Sum_def c)
qed

lemma version_nibble:
  "drop_bit 4 ((x AND 0x0f) OR (v :: byte)) = drop_bit 4 v"
  "v AND 0x0f = 0 \<Longrightarrow> ((x AND 0x0f) OR v) AND 0x0f = x AND 0x0f"
proof -
  have m: "(0x0f :: byte) = mask 4" by (simp add: mask_eq_exp_minus_1)
  show "drop_bit 4 ((x AND 0x0f) OR v) = drop_bit 4 v"
    unfolding m by (rule bit_word_eqI) (auto simp: bit_simps)
  show "((x AND 0x0f) OR v) AND 0x0f = x AND 0x0f" if "v AND 0x0f = 0"
  proof -
    have "((x AND 0x0f) OR v) AND 0x0f = ((x AND 0x0f) AND 0x0f) OR (v AND 0x0f)"
      by (simp add: bit.conj_disj_distrib2)
    then show ?thesis using that by (simp add: and.assoc)
  qed
qed

lemma variant_bits:
  "drop_bit 6 ((x AND 0x3f) OR (0x80 :: byte)) = 2"
  "((x AND 0x3f) OR (0x80 :: byte)) AND 0x3f = x AND 0x3f"
proof -
  have m: "(0x3f :: byte) = mask 6" by (simp add: mask_eq_exp_minus_1)
  have "drop_bit 6 ((x AND 0x3f) OR (0x80 :: byte)) = drop_bit 6 (x AND mask 6) OR drop_bit 6 0x80"
    unfolding m by (rule bit_word_eqI) (auto simp: bit_simps)
  also have "drop_bit 6 (x AND mask 6) = 0"
    by (rule bit_word_eqI) (auto simp: bit_simps)
  finally show "drop_bit 6 ((x AND 0x3f) OR (0x80 :: byte)) = 2" by simp
  have "((x AND 0x3f) OR (0x80 :: byte)) AND 0x3f = ((x AND 0x3f) AND 0x3f) OR (0x80 AND 0x3f)"
    by (simp add: bit.conj_disj_distrib2)
  then show "((x AND 0x3f) OR (0x80 :: byte)) AND 0x3f = x AND 0x3f"
    by (simp add: and.assoc)
qed

lemma name_based_Generate:
  assumes "is_UUID t" and "v = of_int (push_bit 4 (version hg AND 0xf))"
    and "(v :: byte) AND 0x0f = 0"
  shows "name_based (checkSum \<lparr>kind = kind (h hg), written = namespace hg @ input\<rparr>)
     (drop_bit 4 v) (snd (Generate hg t input))"
proof -
  let ?dg = "checkSum \<lparr>kind = kind (h hg), written = namespace hg @ input\<rparr>"
  have l: "16 \<le> length ?dg" by (rule length_checkSum)
  have u: "snd (Generate hg t input) =
      (take 16 ?dg)[6 := (?dg ! 6 AND 0x0f) OR v, 8 := (?dg ! 8 AND 0x3f) OR 0x80]"
    using l by (simp add: Generate_target [OF assms(1)] Let_def assms(2))
  have others: "list_all (\<lambda>i. i = 6 \<or> i = 8 \<or>
      (take 16 ?dg)[6 := (?dg ! 6 AND 0x0f) OR v, 8 := (?dg ! 8 AND 0x3f) OR 0x80] ! i = ?dg ! i) [0..<16]"
    using l by (auto simp: list_all_iff nth_list_update)
  show ?thesis
    unfolding name_based_def u using l others
    by (simp add: version_nibble(1) version_nibble(2) [OF assms(3)] variant_bits)
qed

section \<open>Claims about the generator\<close>

lemma New_fields:
  "kind (h (NewMD5Gen ns)) = MD5" "namespace (NewMD5Gen ns) = ns" "version (NewMD5Gen ns) = 3"
  "kind (h (NewSHA1Gen ns)) = SHA1" "namespace (NewSHA1Gen ns) = ns" "version (NewSHA1Gen ns) = 5"
  by (simp_all add: NewMD5Gen_def NewSHA1Gen_def md5_New_def sha1_New_def)

lemma name_based_MD5:
  assumes "is_UUID t"
  shows "name_based (md5_checkSum (ns @ input)) 3
     (snd (Generate (Generate_many (NewMD5Gen ns) calls) t input))"
  using name_based_Generate [OF assms, of "0x30" "Generate_many (NewMD5Gen ns) calls" input]
  by (simp add: Generate_many_fields New_fields checkSum_def)

lemma name_based_SHA1:
  assumes "is_UUID t"
  shows "name_based (sha1_checkSum (ns @ input)) 5
     (snd (Generate (Generate_many (NewSHA1Gen ns) calls) t input))"
  using name_based_Generate [OF assms, of "0x50" "Generate_many (NewSHA1Gen ns) calls" input]
  by (simp add: Generate_many_fields New_fields checkSum_def)

text \<open>
  Claim C2. For a generator of either kind, fresh or used, \<^verbatim>\<open>Generate\<close> leaves in the
  target the first 16 bytes of the digest of the namespace followed by the input, except
  that the high nibble of byte 6 is the version (3 for MD5, 5 for SHA-1), the low nibble
  being the digest's, and the top two bits of byte 8 are binary 10, the low six bits
  being the digest's. The MD5 digest has 16 bytes; the SHA-1 digest has 20, of which the
  first 16 are used.
\<close>

theorem Generate_name_based:
  "is_UUID t \<Longrightarrow>
     name_based (md5_checkSum (ns @ input)) 3
       (snd (Generate (Generate_many (NewMD5Gen ns) calls) t input))
     \<and> name_based (sha1_checkSum (ns @ input)) 5
       (snd (Generate (Generate_many (NewSHA1Gen ns) calls) t input))
     \<and> length (md5_checkSum (ns @ input)) = 16
     \<and> length (sha1_checkSum (ns @ input)) = 20"
  by (simp add: name_based_MD5 name_based_SHA1 length_md5_checkSum length_sha1_checkSum)

theorem Generate_name_based_witness:
  "is_UUID [0, 0, 0, 0, 0, 0, 0, 0, 0, 0, 0, 0, 0, 0, 0, 0]
   \<and> name_based (md5_checkSum ([0x15, 0x58, 0x86, 0x35, 0xa4, 0x5e, 0x48, 0x67, 0xaa, 0xdb, 0xdb, 0xf0, 0x38, 0x5a, 0xde, 0x95] @ bytes ''input 1'')) 3
       (snd (Generate (Generate_many (NewMD5Gen [0x15, 0x58, 0x86, 0x35, 0xa4, 0x5e, 0x48, 0x67, 0xaa, 0xdb, 0xdb, 0xf0, 0x38, 0x5a, 0xde, 0x95]) [([0xff, 0xff, 0xff, 0xff, 0xff, 0xff, 0xff, 0xff, 0xff, 0xff, 0xff, 0xff, 0xff, 0xff, 0xff, 0xff], bytes ''other'')]) [0, 0, 0, 0, 0, 0, 0, 0, 0, 0, 0, 0, 0, 0, 0, 0] (bytes ''input 1'')))
   \<and> name_based (sha1_checkSum ([0x15, 0x58, 0x86, 0x35, 0xa4, 0x5e, 0x48, 0x67, 0xaa, 0xdb, 0xdb, 0xf0, 0x38, 0x5a, 0xde, 0x95] @ bytes ''input 1'')) 5
       (snd (Generate (Generate_many (NewSHA1Gen [0x15, 0x58, 0x86, 0x35, 0xa4, 0x5e, 0x48, 0x67, 0xaa, 0xdb, 0xdb, 0xf0, 0x38, 0x5a, 0xde, 0x95]) [([0xff, 0xff, 0xff, 0xff, 0xff, 0xff, 0xff, 0xff, 0xff, 0xff, 0xff, 0xff, 0xff, 0xff, 0xff, 0xff], bytes ''other'')]) [0, 0, 0, 0, 0, 0, 0, 0, 0, 0, 0, 0, 0, 0, 0, 0] (bytes ''input 1'')))"
proof -
  have u: "is_UUID [0, 0, 0, 0, 0, 0, 0, 0, 0, 0, 0, 0, 0, 0, 0, 0]"
    by (simp add: is_UUID_def)
  show ?thesis
    using u Generate_name_based [OF u, of "[0x15, 0x58, 0x86, 0x35, 0xa4, 0x5e, 0x48, 0x67, 0xaa, 0xdb, 0xdb, 0xf0, 0x38, 0x5a, 0xde, 0x95]" "bytes ''input 1''" "[([0xff, 0xff, 0xff, 0xff, 0xff, 0xff, 0xff, 0xff, 0xff, 0xff, 0xff, 0xff, 0xff, 0xff, 0xff, 0xff], bytes ''other'')]"]
    by simp
qed

text \<open>
  Claim C4. In every UUID that \<^verbatim>\<open>Generate\<close> produces, the high nibble of byte 6 is the
  version of the generator (3 for MD5, 5 for SHA-1) and the top two bits of byte 8 are
  binary 10.
\<close>

theorem Generate_version_variant:
  "is_UUID t \<Longrightarrow>
     drop_bit 4 (snd (Generate (Generate_many (NewMD5Gen ns) calls) t input) ! 6) = 3
     \<and> drop_bit 6 (snd (Generate (Generate_many (NewMD5Gen ns) calls) t input) ! 8) = 2
     \<and> drop_bit 4 (snd (Generate (Generate_many (NewSHA1Gen ns) calls) t input) ! 6) = 5
     \<and> drop_bit 6 (snd (Generate (Generate_many (NewSHA1Gen ns) calls) t input) ! 8) = 2"
  using name_based_MD5 [of t ns input calls] name_based_SHA1 [of t ns input calls]
  by (simp add: name_based_def)

theorem Generate_version_variant_witness:
  "is_UUID [0xff, 0xff, 0xff, 0xff, 0xff, 0xff, 0xff, 0xff, 0xff, 0xff, 0xff, 0xff, 0xff, 0xff, 0xff, 0xff]
   \<and> drop_bit 4 (snd (Generate (NewMD5Gen [0x15, 0x58, 0x86, 0x35, 0xa4, 0x5e, 0x48, 0x67, 0xaa, 0xdb, 0xdb, 0xf0, 0x38, 0x5a, 0xde, 0x95]) [0xff, 0xff, 0xff, 0xff, 0xff, 0xff, 0xff, 0xff, 0xff, 0xff, 0xff, 0xff, 0xff, 0xff, 0xff, 0xff] (bytes ''input 1'')) ! 6) = 3
   \<and> drop_bit 6 (snd (Generate (NewMD5Gen [0x15, 0x58, 0x86, 0x35, 0xa4, 0x5e, 0x48, 0x67, 0xaa, 0xdb, 0xdb, 0xf0, 0x38, 0x5a, 0xde, 0x95]) [0xff, 0xff, 0xff, 0xff, 0xff, 0xff, 0xff, 0xff, 0xff, 0xff, 0xff, 0xff, 0xff, 0xff, 0xff, 0xff] (bytes ''input 1'')) ! 8) = 2
   \<and> drop_bit 4 (snd (Generate (NewSHA1Gen [0x15, 0x58, 0x86, 0x35, 0xa4, 0x5e, 0x48, 0x67, 0xaa, 0xdb, 0xdb, 0xf0, 0x38, 0x5a, 0xde, 0x95]) [0xff, 0xff, 0xff, 0xff, 0xff, 0xff, 0xff, 0xff, 0xff, 0xff, 0xff, 0xff, 0xff, 0xff, 0xff, 0xff] (bytes ''input 1'')) ! 6) = 5
   \<and> drop_bit 6 (snd (Generate (NewSHA1Gen [0x15, 0x58, 0x86, 0x35, 0xa4, 0x5e, 0x48, 0x67, 0xaa, 0xdb, 0xdb, 0xf0, 0x38, 0x5a, 0xde, 0x95]) [0xff, 0xff, 0xff, 0xff, 0xff, 0xff, 0xff, 0xff, 0xff, 0xff, 0xff, 0xff, 0xff, 0xff, 0xff, 0xff] (bytes ''input 1'')) ! 8) = 2"
proof -
  have u: "is_UUID [0xff, 0xff, 0xff, 0xff, 0xff, 0xff, 0xff, 0xff, 0xff, 0xff, 0xff, 0xff, 0xff, 0xff, 0xff, 0xff]"
    by (simp add: is_UUID_def)
  show ?thesis
    using u Generate_version_variant [OF u, of "[0x15, 0x58, 0x86, 0x35, 0xa4, 0x5e, 0x48, 0x67, 0xaa, 0xdb, 0xdb, 0xf0, 0x38, 0x5a, 0xde, 0x95]" "[]" "bytes ''input 1''"]
    by simp
qed

text \<open>
  Claim C8. \<^verbatim>\<open>Generate\<close> is deterministic and keeps no history: a second call with the
  same input on the same generator leaves in its target what the first call left in
  its own, whatever calls were made in between and whatever the two targets held
  before; and two histories of the same generator give the same result for the same
  input.
\<close>

theorem Generate_history_free:
  "is_UUID t1 \<Longrightarrow> is_UUID t2 \<Longrightarrow>
     snd (Generate (Generate_many (fst (Generate hg t1 input)) calls) t2 input)
       = snd (Generate hg t1 input)
     \<and> snd (Generate (Generate_many hg calls1) t1 input)
       = snd (Generate (Generate_many hg calls2) t2 input)"
proof -
  assume t: "is_UUID t1" "is_UUID t2"
  have g: "kind (h (fst (Generate hg t1 input))) = kind (h hg)
      \<and> namespace (fst (Generate hg t1 input)) = namespace hg
      \<and> version (fst (Generate hg t1 input)) = version hg"
    using Generate_many_fields [of hg "[(t1, input)]"] by simp
  show ?thesis
    by (simp add: Generate_target [OF t(1)] Generate_target [OF t(2)] Generate_many_fields g)
qed

theorem Generate_history_free_witness:
  "is_UUID [0, 0, 0, 0, 0, 0, 0, 0, 0, 0, 0, 0, 0, 0, 0, 0] \<and> is_UUID [0xff, 0xff, 0xff, 0xff, 0xff, 0xff, 0xff, 0xff, 0xff, 0xff, 0xff, 0xff, 0xff, 0xff, 0xff, 0xff]
   \<and> snd (Generate (Generate_many (fst (Generate (NewSHA1Gen [0x15, 0x58, 0x86, 0x35, 0xa4, 0x5e, 0x48, 0x67, 0xaa, 0xdb, 0xdb, 0xf0, 0x38, 0x5a, 0xde, 0x95]) [0, 0, 0, 0, 0, 0, 0, 0, 0, 0, 0, 0, 0, 0, 0, 0] (bytes ''input 1'')))
          [([0, 0, 0, 0, 0, 0, 0, 0, 0, 0, 0, 0, 0, 0, 0, 0], bytes ''a much longer input than the first one''), ([0xff, 0xff, 0xff, 0xff, 0xff, 0xff, 0xff, 0xff, 0xff, 0xff, 0xff, 0xff, 0xff, 0xff, 0xff, 0xff], [])]) [0xff, 0xff, 0xff, 0xff, 0xff, 0xff, 0xff, 0xff, 0xff, 0xff, 0xff, 0xff, 0xff, 0xff, 0xff, 0xff] (bytes ''input 1''))
       = snd (Generate (NewSHA1Gen [0x15, 0x58, 0x86, 0x35, 0xa4, 0x5e, 0x48, 0x67, 0xaa, 0xdb, 0xdb, 0xf0, 0x38, 0x5a, 0xde, 0x95]) [0, 0, 0, 0, 0, 0, 0, 0, 0, 0, 0, 0, 0, 0, 0, 0] (bytes ''input 1''))
   \<and> snd (Generate (Generate_many (NewMD5Gen [0x15, 0x58, 0x86, 0x35, 0xa4, 0x5e, 0x48, 0x67, 0xaa, 0xdb, 0xdb, 0xf0, 0x38, 0x5a, 0xde, 0x95]) [([0xff, 0xff, 0xff, 0xff, 0xff, 0xff, 0xff, 0xff, 0xff, 0xff, 0xff, 0xff, 0xff, 0xff, 0xff, 0xff], bytes ''x'')]) [0, 0, 0, 0, 0, 0, 0, 0, 0, 0, 0, 0, 0, 0, 0, 0] (bytes ''input 1''))
       = snd (Generate (Generate_many (NewMD5Gen [0x15, 0x58, 0x86, 0x35, 0xa4, 0x5e, 0x48, 0x67, 0xaa, 0xdb, 0xdb, 0xf0, 0x38, 0x5a, 0xde, 0x95]) []) [0xff, 0xff, 0xff, 0xff, 0xff, 0xff, 0xff, 0xff, 0xff, 0xff, 0xff, 0xff, 0xff, 0xff, 0xff, 0xff] (bytes ''input 1''))"
proof -
  have u: "is_UUID [0, 0, 0, 0, 0, 0, 0, 0, 0, 0, 0, 0, 0, 0, 0, 0]"
    by (simp add: is_UUID_def)
  have v: "is_UUID [0xff, 0xff, 0xff, 0xff, 0xff, 0xff, 0xff, 0xff, 0xff, 0xff, 0xff, 0xff, 0xff, 0xff, 0xff, 0xff]"
    by (simp add: is_UUID_def)
  show ?thesis
    using u v
      Generate_history_free [OF u v, of "NewSHA1Gen [0x15, 0x58, 0x86, 0x35, 0xa4, 0x5e, 0x48, 0x67, 0xaa, 0xdb, 0xdb, 0xf0, 0x38, 0x5a, 0xde, 0x95]" "bytes ''input 1''"
        "[([0, 0, 0, 0, 0, 0, 0, 0, 0, 0, 0, 0, 0, 0, 0, 0], bytes ''a much longer input than the first one''), ([0xff, 0xff, 0xff, 0xff, 0xff, 0xff, 0xff, 0xff, 0xff, 0xff, 0xff, 0xff, 0xff, 0xff, 0xff, 0xff], [])]"]
      Generate_history_free [OF u v, of "NewMD5Gen [0x15, 0x58, 0x86, 0x35, 0xa4, 0x5e, 0x48, 0x67, 0xaa, 0xdb, 0xdb, 0xf0, 0x38, 0x5a, 0xde, 0x95]" "bytes ''input 1''" "[]"
        "[([0xff, 0xff, 0xff, 0xff, 0xff, 0xff, 0xff, 0xff, 0xff, 0xff, 0xff, 0xff, 0xff, 0xff, 0xff, 0xff], bytes ''x'')]" "[]"]
    by simp
qed

section \<open>Evaluating SHA-1\<close>

text \<open>
  Rules that let the simplifier compute the rounds on 32-bit words written as numerals:
  a sum is reduced modulo \<open>2 ^ 32\<close>, the complement is an exclusive or, and a rotation
  is computed on the natural number.
\<close>

lemma of_nat_mod32: "(of_nat (n mod 2 ^ 32) :: uint32) = of_nat n"
  by (simp add: word_of_nat_eq_iff take_bit_eq_mod)

lemma norm32:
  "4294967296 \<le> (numeral k :: nat) \<Longrightarrow>
     (numeral k :: uint32) = of_nat (numeral k mod 4294967296)"
proof -
  have e: "(2::nat) ^ 32 = 4294967296" by simp
  show ?thesis using of_nat_mod32 [of "numeral k"] by (simp only: of_nat_numeral e)
qed

lemma of_nat_mod8: "(of_nat (n mod 2 ^ 8) :: byte) = of_nat n"
  by (simp add: word_of_nat_eq_iff take_bit_eq_mod)

lemma norm8:
  "256 \<le> (numeral k :: nat) \<Longrightarrow> (numeral k :: byte) = of_nat (numeral k mod 256)"
proof -
  have e: "(2::nat) ^ 8 = 256" by simp
  show ?thesis using of_nat_mod8 [of "numeral k"] by (simp only: of_nat_numeral e)
qed

lemma add32_numeral:
  "add32 (numeral a) (numeral b) = of_nat ((numeral a + numeral b) mod 4294967296)"
  "add32 x 0 = x" "add32 0 y = y"
  "add32 1 (numeral b) = of_nat ((1 + numeral b) mod 4294967296)"
  "add32 (numeral a) 1 = of_nat ((numeral a + 1) mod 4294967296)"
  "add32 1 1 = 2"
proof -
  have e: "(2::nat) ^ 32 = 4294967296" by simp
  show "add32 (numeral a) (numeral b) = of_nat ((numeral a + numeral b) mod 4294967296)"
    using of_nat_mod32 [of "numeral a + numeral b"] unfolding add32_def e
    by (simp only: of_nat_add of_nat_numeral)
  show "add32 1 (numeral b) = of_nat ((1 + numeral b) mod 4294967296)"
    using of_nat_mod32 [of "1 + numeral b"] unfolding add32_def e
    by (simp only: of_nat_add of_nat_numeral of_nat_1)
  show "add32 (numeral a) 1 = of_nat ((numeral a + 1) mod 4294967296)"
    using of_nat_mod32 [of "numeral a + 1"] unfolding add32_def e
    by (simp only: of_nat_add of_nat_numeral of_nat_1)
qed (simp_all add: add32_def)

lemma not32: "NOT (x :: uint32) = x XOR 0xFFFFFFFF"
proof -
  have "(0xFFFFFFFF :: uint32) = - 1" by simp
  then show ?thesis by (simp only: bit.xor_one_right)
qed

lemma push_bit32_of_nat:
  "push_bit s (of_nat n :: uint32) = of_nat (take_bit (32 - s) n * 2 ^ s)"
proof -
  have "take_bit 32 (push_bit s n) = take_bit 32 (push_bit s (take_bit (32 - s) n))"
    by (simp add: take_bit_push_bit)
  then have "(of_nat (push_bit s n) :: uint32) = of_nat (push_bit s (take_bit (32 - s) n))"
    by (simp add: word_of_nat_eq_iff)
  then show ?thesis
    by (simp add: push_bit_eq_mult)
qed

lemma drop_bit32_of_nat:
  "drop_bit s (of_nat n :: uint32) = of_nat (drop_bit s (take_bit 32 n))"
proof -
  have "unat (drop_bit s (of_nat n :: uint32)) = drop_bit s (take_bit 32 n)"
    by (simp add: unat_drop_bit_eq unat_of_nat take_bit_eq_mod)
  then show ?thesis
    by (metis of_nat_unat ucast_id)
qed

lemma rotl_of_nat:
  assumes "k < 32"
  shows "RotateLeft32 (of_nat n) k =
     of_nat (take_bit (32 - k) n * 2 ^ k) OR of_nat (drop_bit (32 - k) (take_bit 32 n))"
  using assms by (simp add: RotateLeft32_def push_bit32_of_nat drop_bit32_of_nat)

lemma rotl_numeral:
  "RotateLeft32 (numeral x) (Suc 0) =
     of_nat (take_bit 31 (numeral x) * 2) OR of_nat (drop_bit 31 (take_bit 32 (numeral x)))"
  "RotateLeft32 (numeral x) 5 =
     of_nat (take_bit 27 (numeral x) * 32) OR of_nat (drop_bit 27 (take_bit 32 (numeral x)))"
  "RotateLeft32 (numeral x) 30 =
     of_nat (take_bit 2 (numeral x) * 1073741824) OR of_nat (drop_bit 2 (take_bit 32 (numeral x)))"
  "RotateLeft32 0 k = 0"
  using rotl_of_nat [of "Suc 0" "numeral x"] rotl_of_nat [of 5 "numeral x"]
    rotl_of_nat [of 30 "numeral x"]
  by (simp_all add: RotateLeft32_def)

lemma fold_upt_step: "i < j \<Longrightarrow> fold f [i..<j] s = fold f [Suc i..<j] (f i s)"
  by (simp add: upt_conv_Cons)

lemma fold_80:
  "fold f [0..<80] s = fold f [60..<80] (fold f [40..<60] (fold f [20..<40] (fold f [0..<20] s)))"
proof -
  have "[0..<80] = [0..<20] @ [20..<40] @ [40..<60] @ [60..<80]"
    using upt_add_eq_append [of 0 20 20] upt_add_eq_append [of 0 40 20]
      upt_add_eq_append [of 0 60 20] by simp
  then show ?thesis by simp
qed

lemma sha1_step_eval:
  "sha1_step i (w, a, b, c, d, e) =
     (let w' = (if i < 16 then w
                else w[i mod 16 := RotateLeft32 (w ! ((i - 3) mod 16) XOR w ! ((i - 8) mod 16)
                       XOR w ! ((i - 14) mod 16) XOR w ! (i mod 16)) 1]);
          f = (if i < 20 then (b AND c) OR ((b XOR 0xFFFFFFFF) AND d)
               else if i < 40 then b XOR c XOR d
               else if i < 60 then ((b OR c) AND d) OR (b AND c)
               else b XOR c XOR d);
          k = (if i < 20 then 0x5A827999 else if i < 40 then 0x6ED9EBA1
               else if i < 60 then 0x8F1BBCDC else 0xCA62C1D6);
          t = add32 (add32 (add32 (add32 (RotateLeft32 a 5) f) e) (w' ! (i mod 16))) k
      in (w', t, a, RotateLeft32 b 30, c, d))"
  by (simp only: sha1_step_def not32 prod.case add32_def)

lemma replicate_numeral: "replicate (numeral k) x = x # replicate (pred_numeral k) x"
  by (simp add: numeral_eq_Suc)

lemma sha1_chunk_rounds:
  assumes "map (\<lambda>i. BEUint32 (drop (i * 4) p)) [0..<16] = w"
    and "fold sha1_step [0..<20] (w, h0, h1, h2, h3, h4) = s20"
    and "fold sha1_step [20..<40] s20 = s40"
    and "fold sha1_step [40..<60] s40 = s60"
    and "fold sha1_step [60..<80] s60 = (w', a, b, c, d, e)"
  shows "sha1_chunk [h0, h1, h2, h3, h4] p = [h0 + a, h1 + b, h2 + c, h3 + d, h4 + e]"
proof -
  have n: "[h0, h1, h2, h3, h4] ! 0 = h0" "[h0, h1, h2, h3, h4] ! 1 = h1"
    "[h0, h1, h2, h3, h4] ! 2 = h2" "[h0, h1, h2, h3, h4] ! 3 = h3" "[h0, h1, h2, h3, h4] ! 4 = h4"
    by simp_all
  show ?thesis
    unfolding sha1_chunk_def Let_def assms(1) fold_80 n assms(2-5) by simp
qed

subsection \<open>The two digests of the test vectors\<close>

lemma sha1_padded_short:
  "sha1_checkSum ([0x15, 0x58, 0x86, 0x35, 0xa4, 0x5e, 0x48, 0x67, 0xaa, 0xdb, 0xdb, 0xf0, 0x38, 0x5a, 0xde, 0x95] @ bytes ''input 1'') =
     concat (map BEPutUint32 (sha1_block sha1_init
      ([0x15, 0x58, 0x86, 0x35, 0xa4, 0x5e, 0x48, 0x67, 0xaa, 0xdb, 0xdb, 0xf0, 0x38, 0x5a,
         0xde, 0x95, 0x69, 0x6e, 0x70, 0x75, 0x74, 0x20, 0x31, 0x80, 0x00, 0x00, 0x00, 0x00,
         0x00, 0x00, 0x00, 0x00, 0x00, 0x00, 0x00, 0x00, 0x00, 0x00, 0x00, 0x00, 0x00, 0x00,
         0x00, 0x00, 0x00, 0x00, 0x00, 0x00, 0x00, 0x00, 0x00, 0x00, 0x00, 0x00, 0x00, 0x00,
         0x00, 0x00, 0x00, 0x00, 0x00, 0x00, 0x00, 0xb8])))"
  by (simp add: sha1_checkSum_def bytes_def BEPutUint64_def replicate_numeral norm8)

lemma sha1_words_short_0:
  "map (\<lambda>i. BEUint32 (drop (i * 4)
      [0x15, 0x58, 0x86, 0x35, 0xa4, 0x5e, 0x48, 0x67, 0xaa, 0xdb, 0xdb, 0xf0, 0x38, 0x5a,
       0xde, 0x95, 0x69, 0x6e, 0x70, 0x75, 0x74, 0x20, 0x31, 0x80, 0x00, 0x00, 0x00, 0x00,
       0x00, 0x00, 0x00, 0x00, 0x00, 0x00, 0x00, 0x00, 0x00, 0x00, 0x00, 0x00, 0x00, 0x00,
       0x00, 0x00, 0x00, 0x00, 0x00, 0x00, 0x00, 0x00, 0x00, 0x00, 0x00, 0x00, 0x00, 0x00,
       0x00, 0x00, 0x00, 0x00, 0x00, 0x00, 0x00, 0xb8])) [0..<16] =
      [0x15588635, 0xa45e4867, 0xaadbdbf0, 0x385ade95, 0x696e7075, 0x74203180, 0x00000000,
       0x00000000, 0x00000000, 0x00000000, 0x00000000, 0x00000000, 0x00000000, 0x00000000,
       0x00000000, 0x000000b8]"
  by (simp add: BEUint32_def upt_rec)

lemma sha1_rounds_short_0_0:
  "fold sha1_step [0..<20]
     ([0x15588635, 0xa45e4867, 0xaadbdbf0, 0x385ade95, 0x696e7075, 0x74203180, 0x00000000,
      0x00000000, 0x00000000, 0x00000000, 0x00000000, 0x00000000, 0x00000000, 0x00000000,
      0x00000000, 0x000000b8], 0x67452301, 0xefcdab89, 0x98badcfe, 0x10325476, 0xc3d2e1f0) =
     ([0x7f06bb8b, 0x38092de5, 0x876b567b, 0x66f8a93c, 0x696e7075, 0x74203180, 0x00000000,
      0x00000000, 0x00000000, 0x00000000, 0x00000000, 0x00000000, 0x00000000, 0x00000000,
      0x00000000, 0x000000b8], 0x674c349a, 0xf355e251, 0x9bb35cd7, 0x4a5b15c9, 0x51df8b7c)"
  by (simp add: fold_upt_step sha1_step_eval rotl_numeral add32_numeral)

lemma sha1_rounds_short_0_20:
  "fold sha1_step [20..<40]
     ([0x7f06bb8b, 0x38092de5, 0x876b567b, 0x66f8a93c, 0x696e7075, 0x74203180, 0x00000000,
      0x00000000, 0x00000000, 0x00000000, 0x00000000, 0x00000000, 0x00000000, 0x00000000,
      0x00000000, 0x000000b8], 0x674c349a, 0xf355e251, 0x9bb35cd7, 0x4a5b15c9, 0x51df8b7c) =
     ([0x1b703d7a, 0x0f1f5e21, 0xff3016f6, 0x615db076, 0xe4b87e9f, 0x359d6b09, 0x5a05bc0b,
      0x2a08a441, 0x3320e8f9, 0xebf0ff3b, 0x85ec4295, 0xabb0838a, 0x927c8836, 0xc6f51bb4,
      0x328ed4f2, 0xdfd1a4b5], 0x9a56c3fe, 0x1e7a9f96, 0x548a4c98, 0xa2d5b256, 0x0429f9ce)"
  by (simp add: fold_upt_step sha1_step_eval rotl_numeral add32_numeral)

lemma sha1_rounds_short_0_40:
  "fold sha1_step [40..<60]
     ([0x1b703d7a, 0x0f1f5e21, 0xff3016f6, 0x615db076, 0xe4b87e9f, 0x359d6b09, 0x5a05bc0b,
      0x2a08a441, 0x3320e8f9, 0xebf0ff3b, 0x85ec4295, 0xabb0838a, 0x927c8836, 0xc6f51bb4,
      0x328ed4f2, 0xdfd1a4b5], 0x9a56c3fe, 0x1e7a9f96, 0x548a4c98, 0xa2d5b256, 0x0429f9ce) =
     ([0x0fa337e1, 0xa4dc7376, 0xa150b0bd, 0x47a898e0, 0x8f3f1e71, 0xda2e6f6d, 0x76ee6c1c,
      0x83e48e31, 0xc13ca134, 0x00610565, 0xf435e0fe, 0x5be3a2f3, 0xddfe3eda, 0x53d24843,
      0x1699eada, 0x4e70c01e], 0xf2bf1903, 0xdcf62ff7, 0xd06dc670, 0xd4e9e737, 0xf0f83ed6)"
  by (simp add: fold_upt_step sha1_step_eval rotl_numeral add32_numeral)

lemma sha1_rounds_short_0_60:
  "fold sha1_step [60..<80]
     ([0x0fa337e1, 0xa4dc7376, 0xa150b0bd, 0x47a898e0, 0x8f3f1e71, 0xda2e6f6d, 0x76ee6c1c,
      0x83e48e31, 0xc13ca134, 0x00610565, 0xf435e0fe, 0x5be3a2f3, 0xddfe3eda, 0x53d24843,
      0x1699eada, 0x4e70c01e], 0xf2bf1903, 0xdcf62ff7, 0xd06dc670, 0xd4e9e737, 0xf0f83ed6) =
     ([0x117a53e8, 0x16f792b7, 0x305a11a2, 0xae3e0d2d, 0xceaafde4, 0x1dc5fec4, 0xe305cf5a,
      0x1eb060a7, 0x736dd9cc, 0x5ce1f4f7, 0xa5581fa6, 0xc384f31d, 0xe4ad6126, 0x3b31503a,
      0xb32a900e, 0x5d3babaa], 0xe53c4ac0, 0xa44a54a5, 0xc2d7147d, 0x7356c782, 0xa8d63d2f)"
  by (simp add: fold_upt_step sha1_step_eval rotl_numeral add32_numeral)

lemma sha1_chunk_short_0:
  "sha1_chunk [0x67452301, 0xefcdab89, 0x98badcfe, 0x10325476, 0xc3d2e1f0]
     [0x15, 0x58, 0x86, 0x35, 0xa4, 0x5e, 0x48, 0x67, 0xaa, 0xdb, 0xdb, 0xf0, 0x38, 0x5a, 0xde,
      0x95, 0x69, 0x6e, 0x70, 0x75, 0x74, 0x20, 0x31, 0x80, 0x00, 0x00, 0x00, 0x00, 0x00, 0x00,
      0x00, 0x00, 0x00, 0x00, 0x00, 0x00, 0x00, 0x00, 0x00, 0x00, 0x00, 0x00, 0x00, 0x00, 0x00,
      0x00, 0x00, 0x00, 0x00, 0x00, 0x00, 0x00, 0x00, 0x00, 0x00, 0x00, 0x00, 0x00, 0x00, 0x00,
      0x00, 0x00, 0x00, 0xb8] =
     [0x4c816dc1, 0x9418002e, 0x5b91f17b, 0x83891bf8, 0x6ca91f1f]"
  using sha1_chunk_rounds [OF sha1_words_short_0 sha1_rounds_short_0_0 sha1_rounds_short_0_20
      sha1_rounds_short_0_40 sha1_rounds_short_0_60]
  by (simp add: norm32)

lemma sha1_digest_short:
  "sha1_checkSum ([0x15, 0x58, 0x86, 0x35, 0xa4, 0x5e, 0x48, 0x67, 0xaa, 0xdb, 0xdb, 0xf0, 0x38, 0x5a, 0xde, 0x95] @ bytes ''input 1'') =
     [0x4c, 0x81, 0x6d, 0xc1, 0x94, 0x18, 0x00, 0x2e, 0x5b, 0x91, 0xf1, 0x7b, 0x83, 0x89, 0x1b,
      0xf8, 0x6c, 0xa9, 0x1f, 0x1f]"
  unfolding sha1_padded_short sha1_init_def
  by (simp add: sha1_block.simps sha1_chunk_short_0 BEPutUint32_def)

lemma sha1_padded_long:
  "sha1_checkSum ([0x15, 0x58, 0x86, 0x35, 0xa4, 0x5e, 0x48, 0x67, 0xaa, 0xdb, 0xdb, 0xf0, 0x38, 0x5a, 0xde, 0x95] @ bytes ''input 123456123456123456123456123456123456123456123456123456123456123456123456123456123456'') =
     concat (map BEPutUint32 (sha1_block sha1_init
      ([0x15, 0x58, 0x86, 0x35, 0xa4, 0x5e, 0x48, 0x67, 0xaa, 0xdb, 0xdb, 0xf0, 0x38, 0x5a,
         0xde, 0x95, 0x69, 0x6e, 0x70, 0x75, 0x74, 0x20, 0x31, 0x32, 0x33, 0x34, 0x35, 0x36,
         0x31, 0x32, 0x33, 0x34, 0x35, 0x36, 0x31, 0x32, 0x33, 0x34, 0x35, 0x36, 0x31, 0x32,
         0x33, 0x34, 0x35, 0x36, 0x31, 0x32, 0x33, 0x34, 0x35, 0x36, 0x31, 0x32, 0x33, 0x34,
         0x35, 0x36, 0x31, 0x32, 0x33, 0x34, 0x35, 0x36]
       @ [0x31, 0x32, 0x33, 0x34, 0x35, 0x36, 0x31, 0x32, 0x33, 0x34, 0x35, 0x36, 0x31, 0x32,
         0x33, 0x34, 0x35, 0x36, 0x31, 0x32, 0x33, 0x34, 0x35, 0x36, 0x31, 0x32, 0x33, 0x34,
         0x35, 0x36, 0x31, 0x32, 0x33, 0x34, 0x35, 0x36, 0x31, 0x32, 0x33, 0x34, 0x35, 0x36,
         0x80, 0x00, 0x00, 0x00, 0x00, 0x00, 0x00, 0x00, 0x00, 0x00, 0x00, 0x00, 0x00, 0x00,
         0x00, 0x00, 0x00, 0x00, 0x00, 0x00, 0x03, 0x50])))"
  by (simp add: sha1_checkSum_def bytes_def BEPutUint64_def replicate_numeral norm8)

lemma sha1_words_long_0:
  "map (\<lambda>i. BEUint32 (drop (i * 4)
      [0x15, 0x58, 0x86, 0x35, 0xa4, 0x5e, 0x48, 0x67, 0xaa, 0xdb, 0xdb, 0xf0, 0x38, 0x5a,
       0xde, 0x95, 0x69, 0x6e, 0x70, 0x75, 0x74, 0x20, 0x31, 0x32, 0x33, 0x34, 0x35, 0x36,
       0x31, 0x32, 0x33, 0x34, 0x35, 0x36, 0x31, 0x32, 0x33, 0x34, 0x35, 0x36, 0x31, 0x32,
       0x33, 0x34, 0x35, 0x36, 0x31, 0x32, 0x33, 0x34, 0x35, 0x36, 0x31, 0x32, 0x33, 0x34,
       0x35, 0x36, 0x31, 0x32, 0x33, 0x34, 0x35, 0x36])) [0..<16] =
      [0x15588635, 0xa45e4867, 0xaadbdbf0, 0x385ade95, 0x696e7075, 0x74203132, 0x33343536,
       0x31323334, 0x35363132, 0x33343536, 0x31323334, 0x35363132, 0x33343536, 0x31323334,
       0x35363132, 0x33343536]"
  by (simp add: BEUint32_def upt_rec)

lemma sha1_rounds_long_0_0:
  "fold sha1_step [0..<20]
     ([0x15588635, 0xa45e4867, 0xaadbdbf0, 0x385ade95, 0x696e7075, 0x74203132, 0x33343536,
      0x31323334, 0x35363132, 0x33343536, 0x31323334, 0x35363132, 0x33343536, 0x31323334,
      0x35363132, 0x33343536], 0x67452301, 0xefcdab89, 0x98badcfe, 0x10325476, 0xc3d2e1f0) =
     ([0x770ebf87, 0x340d25ed, 0x83675b0f, 0x1c84c224, 0x696e7075, 0x74203132, 0x33343536,
      0x31323334, 0x35363132, 0x33343536, 0x31323334, 0x35363132, 0x33343536, 0x31323334,
      0x35363132, 0x33343536], 0x79d48947, 0x6fa87118, 0x7fff3443, 0x5e48f0a1, 0x8e91868d)"
  by (simp add: fold_upt_step sha1_step_eval rotl_numeral add32_numeral)

lemma sha1_rounds_long_0_20:
  "fold sha1_step [20..<40]
     ([0x770ebf87, 0x340d25ed, 0x83675b0f, 0x1c84c224, 0x696e7075, 0x74203132, 0x33343536,
      0x31323334, 0x35363132, 0x33343536, 0x31323334, 0x35363132, 0x33343536, 0x31323334,
      0x35363132, 0x33343536], 0x79d48947, 0x6fa87118, 0x7fff3443, 0x5e48f0a1, 0x8e91868d) =
     ([0x98a24f38, 0x8d8dec5a, 0x5aeb5257, 0x5b70fd92, 0x48319025, 0x41794d88, 0x17169c7b,
      0x79837956, 0x3b08d3f5, 0xdadd9f9a, 0x2d10da09, 0x471027ae, 0xcc32615c, 0x833010e1,
      0xb4928e7e, 0xb9c4831d], 0x52b97627, 0x2d845c68, 0x21458e5b, 0xd79e0370, 0xe2263925)"
  by (simp add: fold_upt_step sha1_step_eval rotl_numeral add32_numeral)

lemma sha1_rounds_long_0_40:
  "fold sha1_step [40..<60]
     ([0x98a24f38, 0x8d8dec5a, 0x5aeb5257, 0x5b70fd92, 0x48319025, 0x41794d88, 0x17169c7b,
      0x79837956, 0x3b08d3f5, 0xdadd9f9a, 0x2d10da09, 0x471027ae, 0xcc32615c, 0x833010e1,
      0xb4928e7e, 0xb9c4831d], 0x52b97627, 0x2d845c68, 0x21458e5b, 0xd79e0370, 0xe2263925) =
     ([0x47fdec9b, 0x5a8e9511, 0xea50e49b, 0xb8b3c812, 0xf3a08e2a, 0x59365bfc, 0x8a691334,
      0xcfd3ef81, 0x0bb102ae, 0xbfcf5d0f, 0xbadfebd3, 0x993d1f1e, 0x7c79de5a, 0xfe31fdbb,
      0x7517cb6a, 0x63679096], 0xc75a437b, 0xbc162582, 0x0a2823e0, 0xd458d868, 0x44571738)"
  by (simp add: fold_upt_step sha1_step_eval rotl_numeral add32_numeral)

lemma sha1_rounds_long_0_60:
  "fold sha1_step [60..<80]
     ([0x47fdec9b, 0x5a8e9511, 0xea50e49b, 0xb8b3c812, 0xf3a08e2a, 0x59365bfc, 0x8a691334,
      0xcfd3ef81, 0x0bb102ae, 0xbfcf5d0f, 0xbadfebd3, 0x993d1f1e, 0x7c79de5a, 0xfe31fdbb,
      0x7517cb6a, 0x63679096], 0xc75a437b, 0xbc162582, 0x0a2823e0, 0xd458d868, 0x44571738) =
     ([0xb6c76154, 0x3d1caf74, 0xb6ba9a74, 0x9cffdb49, 0x9dad7c81, 0xba41281b, 0xbcb73aca,
      0x2b8604ae, 0x7bd14065, 0x4eb3af5f, 0x5bc1f247, 0x06d87c6d, 0x34c21084, 0xc91b5801,
      0x9fa8e08a, 0xb454ee0d], 0x39c4ca21, 0xa57d2794, 0xe26f7d27, 0xac9fa6f1, 0x3f62d203)"
  by (simp add: fold_upt_step sha1_step_eval rotl_numeral add32_numeral)

lemma sha1_chunk_long_0:
  "sha1_chunk [0x67452301, 0xefcdab89, 0x98badcfe, 0x10325476, 0xc3d2e1f0]
     [0x15, 0x58, 0x86, 0x35, 0xa4, 0x5e, 0x48, 0x67, 0xaa, 0xdb, 0xdb, 0xf0, 0x38, 0x5a, 0xde,
      0x95, 0x69, 0x6e, 0x70, 0x75, 0x74, 0x20, 0x31, 0x32, 0x33, 0x34, 0x35, 0x36, 0x31, 0x32,
      0x33, 0x34, 0x35, 0x36, 0x31, 0x32, 0x33, 0x34, 0x35, 0x36, 0x31, 0x32, 0x33, 0x34, 0x35,
      0x36, 0x31, 0x32, 0x33, 0x34, 0x35, 0x36, 0x31, 0x32, 0x33, 0x34, 0x35, 0x36, 0x31, 0x32,
      0x33, 0x34, 0x35, 0x36] =
     [0xa109ed22, 0x954ad31d, 0x7b2a5a25, 0xbcd1fb67, 0x0335b3f3]"
  using sha1_chunk_rounds [OF sha1_words_long_0 sha1_rounds_long_0_0 sha1_rounds_long_0_20
      sha1_rounds_long_0_40 sha1_rounds_long_0_60]
  by (simp add: norm32)

lemma sha1_words_long_1:
  "map (\<lambda>i. BEUint32 (drop (i * 4)
      [0x31, 0x32, 0x33, 0x34, 0x35, 0x36, 0x31, 0x32, 0x33, 0x34, 0x35, 0x36, 0x31, 0x32,
       0x33, 0x34, 0x35, 0x36, 0x31, 0x32, 0x33, 0x34, 0x35, 0x36, 0x31, 0x32, 0x33, 0x34,
       0x35, 0x36, 0x31, 0x32, 0x33, 0x34, 0x35, 0x36, 0x31, 0x32, 0x33, 0x34, 0x35, 0x36,
       0x80, 0x00, 0x00, 0x00, 0x00, 0x00, 0x00, 0x00, 0x00, 0x00, 0x00, 0x00, 0x00, 0x00,
       0x00, 0x00, 0x00, 0x00, 0x00, 0x00, 0x03, 0x50])) [0..<16] =
      [0x31323334, 0x35363132, 0x33343536, 0x31323334, 0x35363132, 0x33343536, 0x31323334,
       0x35363132, 0x33343536, 0x31323334, 0x35368000, 0x00000000, 0x00000000, 0x00000000,
       0x00000000, 0x00000350]"
  by (simp add: BEUint32_def upt_rec)

lemma sha1_rounds_long_1_0:
  "fold sha1_step [0..<20]
     ([0x31323334, 0x35363132, 0x33343536, 0x31323334, 0x35363132, 0x33343536, 0x31323334,
      0x35363132, 0x33343536, 0x31323334, 0x35368000, 0x00000000, 0x00000000, 0x00000000,
      0x00000000, 0x00000350], 0xa109ed22, 0x954ad31d, 0x7b2a5a25, 0xbcd1fb67, 0x0335b3f3) =
     ([0x62646668, 0x6a6c6264, 0x66690ea8, 0xc0c4c0d4, 0x35363132, 0x33343536, 0x31323334,
      0x35363132, 0x33343536, 0x31323334, 0x35368000, 0x00000000, 0x00000000, 0x00000000,
      0x00000000, 0x00000350], 0x321d177d, 0xa926c14e, 0xf5ede1ae, 0xc8b8a74e, 0xed1b0f86)"
  by (simp add: fold_upt_step sha1_step_eval rotl_numeral add32_numeral)

lemma sha1_rounds_long_1_20:
  "fold sha1_step [20..<40]
     ([0x62646668, 0x6a6c6264, 0x66690ea8, 0xc0c4c0d4, 0x35363132, 0x33343536, 0x31323334,
      0x35363132, 0x33343536, 0x31323334, 0x35368000, 0x00000000, 0x00000000, 0x00000000,
      0x00000000, 0x00000350], 0x321d177d, 0xa926c14e, 0xf5ede1ae, 0xc8b8a74e, 0xed1b0f86) =
     ([0x8e31fdd6, 0xfc93ff4d, 0x9a87eb52, 0x3ad363d3, 0xce1080b4, 0xc318ce13, 0x3ec30d3c,
      0xe0313569, 0x49618c0d, 0xbdb7b9fb, 0xc5ec1b1b, 0x134a99b3, 0xc2cef27e, 0x0a741a26,
      0xe956e4ed, 0x321620de], 0x6650a521, 0xc9516856, 0xd9f557c6, 0xc973b7e6, 0x88b701a9)"
  by (simp add: fold_upt_step sha1_step_eval rotl_numeral add32_numeral)

lemma sha1_rounds_long_1_40:
  "fold sha1_step [40..<60]
     ([0x8e31fdd6, 0xfc93ff4d, 0x9a87eb52, 0x3ad363d3, 0xce1080b4, 0xc318ce13, 0x3ec30d3c,
      0xe0313569, 0x49618c0d, 0xbdb7b9fb, 0xc5ec1b1b, 0x134a99b3, 0xc2cef27e, 0x0a741a26,
      0xe956e4ed, 0x321620de], 0x6650a521, 0xc9516856, 0xd9f557c6, 0xc973b7e6, 0x88b701a9) =
     ([0x2eb4d71b, 0x5d836ec8, 0x033433f4, 0x2c6c5231, 0xa9ed0fd5, 0x4171f840, 0x40793245,
      0x7d4504dc, 0x2f481080, 0x0bd15679, 0xf9fe7a7d, 0x85904bb8, 0x79a664aa, 0x00a534ae,
      0x31da8f88, 0xae251ca0], 0xf0375ece, 0xbe177851, 0x65006ed1, 0xdef50efc, 0x4aa5c187)"
  by (simp add: fold_upt_step sha1_step_eval rotl_numeral add32_numeral)

lemma sha1_rounds_long_1_60:
  "fold sha1_step [60..<80]
     ([0x2eb4d71b, 0x5d836ec8, 0x033433f4, 0x2c6c5231, 0xa9ed0fd5, 0x4171f840, 0x40793245,
      0x7d4504dc, 0x2f481080, 0x0bd15679, 0xf9fe7a7d, 0x85904bb8, 0x79a664aa, 0x00a534ae,
      0x31da8f88, 0xae251ca0], 0xf0375ece, 0xbe177851, 0x65006ed1, 0xdef50efc, 0x4aa5c187) =
     ([0x5daf4012, 0x9e6050bb, 0xcfc6c21d, 0x6a4543b7, 0x46ea106d, 0xbfdad5cf, 0x60f4475f,
      0x0974cb35, 0x6987fe40, 0xe1aa144a, 0xd79a2c91, 0x549b4453, 0x8d9e47cf, 0xe13714d5,
      0xb99c0387, 0x5c9df627], 0x694b20ca, 0x24f40fa5, 0x6a230654, 0xa1cf4129, 0x5f7eb855)"
  by (simp add: fold_upt_step sha1_step_eval rotl_numeral add32_numeral)

lemma sha1_chunk_long_1:
  "sha1_chunk [0xa109ed22, 0x954ad31d, 0x7b2a5a25, 0xbcd1fb67, 0x0335b3f3]
     [0x31, 0x32, 0x33, 0x34, 0x35, 0x36, 0x31, 0x32, 0x33, 0x34, 0x35, 0x36, 0x31, 0x32, 0x33,
      0x34, 0x35, 0x36, 0x31, 0x32, 0x33, 0x34, 0x35, 0x36, 0x31, 0x32, 0x33, 0x34, 0x35, 0x36,
      0x31, 0x32, 0x33, 0x34, 0x35, 0x36, 0x31, 0x32, 0x33, 0x34, 0x35, 0x36, 0x80, 0x00, 0x00,
      0x00, 0x00, 0x00, 0x00, 0x00, 0x00, 0x00, 0x00, 0x00, 0x00, 0x00, 0x00, 0x00, 0x00, 0x00,
      0x00, 0x00, 0x03, 0x50] =
     [0x0a550dec, 0xba3ee2c2, 0xe54d6079, 0x5ea13c90, 0x62b46c48]"
  using sha1_chunk_rounds [OF sha1_words_long_1 sha1_rounds_long_1_0 sha1_rounds_long_1_20
      sha1_rounds_long_1_40 sha1_rounds_long_1_60]
  by (simp add: norm32)

lemma sha1_digest_long:
  "sha1_checkSum ([0x15, 0x58, 0x86, 0x35, 0xa4, 0x5e, 0x48, 0x67, 0xaa, 0xdb, 0xdb, 0xf0, 0x38, 0x5a, 0xde, 0x95] @ bytes ''input 123456123456123456123456123456123456123456123456123456123456123456123456123456123456'') =
     [0x0a, 0x55, 0x0d, 0xec, 0xba, 0x3e, 0xe2, 0xc2, 0xe5, 0x4d, 0x60, 0x79, 0x5e, 0xa1, 0x3c,
      0x90, 0x62, 0xb4, 0x6c, 0x48]"
  unfolding sha1_padded_long sha1_init_def
  by (simp add: sha1_block.simps sha1_chunk_long_0 sha1_chunk_long_1 BEPutUint32_def)

subsection \<open>The test vectors\<close>

lemma Parse_namespace:
  "Parse (bytes ''15588635-a45e-4867-aadb-dbf0385ade95'') =
     ([0x15, 0x58, 0x86, 0x35, 0xa4, 0x5e, 0x48, 0x67, 0xaa, 0xdb, 0xdb, 0xf0, 0x38, 0x5a, 0xde, 0x95], None)"
  by (simp add: Parse_def bytes_def dash_def DecodeString_def copy_def zero_UUID_def fromHexChar_def)

lemma Generate_SHA1_target:
  assumes "is_UUID t" and "sha1_checkSum (ns @ input) = dg"
  shows "snd (Generate (NewSHA1Gen ns) t input) =
     (take 16 dg)[6 := (take 16 dg ! 6 AND 0x0f) OR 0x50,
                  8 := ((take 16 dg)[6 := (take 16 dg ! 6 AND 0x0f) OR 0x50] ! 8 AND 0x3f) OR 0x80]"
  using assms(2) by (simp add: Generate_target [OF assms(1)] New_fields checkSum_def Let_def)

lemma Generate_short:
  "is_UUID t \<Longrightarrow> snd (Generate (NewSHA1Gen [0x15, 0x58, 0x86, 0x35, 0xa4, 0x5e, 0x48, 0x67, 0xaa, 0xdb, 0xdb, 0xf0, 0x38, 0x5a, 0xde, 0x95]) t (bytes ''input 1'')) =
     [0x4c, 0x81, 0x6d, 0xc1, 0x94, 0x18, 0x50, 0x2e, 0x9b, 0x91, 0xf1, 0x7b, 0x83, 0x89, 0x1b, 0xf8]"
  by (simp add: Generate_SHA1_target [OF _ sha1_digest_short])

lemma Generate_long:
  "is_UUID t \<Longrightarrow> snd (Generate (NewSHA1Gen [0x15, 0x58, 0x86, 0x35, 0xa4, 0x5e, 0x48, 0x67, 0xaa, 0xdb, 0xdb, 0xf0, 0x38, 0x5a, 0xde, 0x95]) t (bytes ''input 123456123456123456123456123456123456123456123456123456123456123456123456123456123456'')) =
     [0x0a, 0x55, 0x0d, 0xec, 0xba, 0x3e, 0x52, 0xc2, 0xa5, 0x4d, 0x60, 0x79, 0x5e, 0xa1, 0x3c, 0x90]"
  by (simp add: Generate_SHA1_target [OF _ sha1_digest_long])

lemma String_short:
  "String [0x4c, 0x81, 0x6d, 0xc1, 0x94, 0x18, 0x50, 0x2e, 0x9b, 0x91, 0xf1, 0x7b, 0x83, 0x89, 0x1b, 0xf8] = bytes ''4c816dc1-9418-502e-9b91-f17b83891bf8''"
  by (simp add: String_def hx_def hextable_def bytes_def dash_def)

lemma String_long:
  "String [0x0a, 0x55, 0x0d, 0xec, 0xba, 0x3e, 0x52, 0xc2, 0xa5, 0x4d, 0x60, 0x79, 0x5e, 0xa1, 0x3c, 0x90] = bytes ''0a550dec-ba3e-52c2-a54d-60795ea13c90''"
  by (simp add: String_def hx_def hextable_def bytes_def dash_def)

text \<open>
  Claim C5. With the namespace \<^verbatim>\<open>15588635-a45e-4867-aadb-dbf0385ade95\<close> and the SHA-1
  generator, \<^verbatim>\<open>Generate\<close> on the input \<^verbatim>\<open>"input 1"\<close> gives the UUID whose string is
  \<^verbatim>\<open>4c816dc1-9418-502e-9b91-f17b83891bf8\<close>, and on the long input of the test it gives
  \<^verbatim>\<open>0a550dec-ba3e-52c2-a54d-60795ea13c90\<close>, whatever the target held before.
\<close>

theorem SHA1_test_vectors:
  "is_UUID t \<Longrightarrow>
     String (snd (Generate (NewSHA1Gen (fst (Parse (bytes ''15588635-a45e-4867-aadb-dbf0385ade95''))))
         t (bytes ''input 1'')))
       = bytes ''4c816dc1-9418-502e-9b91-f17b83891bf8''
     \<and> String (snd (Generate (NewSHA1Gen (fst (Parse (bytes ''15588635-a45e-4867-aadb-dbf0385ade95''))))
         t (bytes ''input 123456123456123456123456123456123456123456123456123456123456123456123456123456123456'')))
       = bytes ''0a550dec-ba3e-52c2-a54d-60795ea13c90''"
  by (simp only: Parse_namespace fst_conv Generate_short Generate_long String_short String_long simp_thms)

theorem SHA1_test_vectors_witness:
  "is_UUID [0, 0, 0, 0, 0, 0, 0, 0, 0, 0, 0, 0, 0, 0, 0, 0]
   \<and> snd (Parse (bytes ''15588635-a45e-4867-aadb-dbf0385ade95'')) = None
   \<and> String (snd (Generate (NewSHA1Gen (fst (Parse (bytes ''15588635-a45e-4867-aadb-dbf0385ade95''))))
         [0, 0, 0, 0, 0, 0, 0, 0, 0, 0, 0, 0, 0, 0, 0, 0] (bytes ''input 1'')))
       = bytes ''4c816dc1-9418-502e-9b91-f17b83891bf8''
   \<and> String (snd (Generate (NewSHA1Gen (fst (Parse (bytes ''15588635-a45e-4867-aadb-dbf0385ade95''))))
         [0, 0, 0, 0, 0, 0, 0, 0, 0, 0, 0, 0, 0, 0, 0, 0] (bytes ''input 123456123456123456123456123456123456123456123456123456123456123456123456123456123456'')))
       = bytes ''0a550dec-ba3e-52c2-a54d-60795ea13c90''"
proof -
  have u: "is_UUID [0, 0, 0, 0, 0, 0, 0, 0, 0, 0, 0, 0, 0, 0, 0, 0]"
    by (simp add: is_UUID_def)
  have p: "snd (Parse (bytes ''15588635-a45e-4867-aadb-dbf0385ade95'')) = None"
    by (simp only: Parse_namespace snd_conv)
  from u p SHA1_test_vectors [OF u] show ?thesis by (intro conjI) simp_all
qed

section \<open>Evaluating MD5\<close>

lemma rotl_numeral_any:
  "numeral k < (32::nat) \<Longrightarrow> RotateLeft32 (numeral x) (numeral k) =
     of_nat (take_bit (32 - numeral k) (numeral x) * 2 ^ numeral k)
     OR of_nat (drop_bit (32 - numeral k) (take_bit 32 (numeral x)))"
  using rotl_of_nat [of "numeral k" "numeral x"] by simp

lemma fold_64:
  "fold f [0..<64] s = fold f [48..<64] (fold f [32..<48] (fold f [16..<32] (fold f [0..<16] s)))"
proof -
  have "[0..<64] = [0..<16] @ [16..<32] @ [32..<48] @ [48..<64]"
    using upt_add_eq_append [of 0 16 16] upt_add_eq_append [of 0 32 16]
      upt_add_eq_append [of 0 48 16] by simp
  then show ?thesis by simp
qed

lemma md5_step_eval:
  "md5_step i (x, a, b, c, d) =
     (let f = (if i < 16 then ((c XOR d) AND b) XOR d
               else if i < 32 then ((b XOR c) AND d) XOR c
               else if i < 48 then b XOR c XOR d
               else c XOR (b OR (d XOR 0xFFFFFFFF)));
          g = (if i < 16 then i
               else if i < 32 then (1 + 5 * i) mod 16
               else if i < 48 then (5 + 3 * i) mod 16
               else (7 * i) mod 16);
          a' = add32 b (RotateLeft32 (add32 (add32 (add32 f a) (x ! g)) (md5_T ! i)) (md5_shift i))
      in (x, d, a', b, c))"
  by (simp only: md5_step_def not32 prod.case add32_def)

lemma md5_chunk_rounds:
  assumes "map (\<lambda>i. LEUint32 (drop (i * 4) q)) [0..<16] = x"
    and "fold md5_step [0..<16] (x, s0, s1, s2, s3) = t16"
    and "fold md5_step [16..<32] t16 = t32"
    and "fold md5_step [32..<48] t32 = t48"
    and "fold md5_step [48..<64] t48 = (x', a, b, c, d)"
  shows "md5_chunk [s0, s1, s2, s3] q = [s0 + a, s1 + b, s2 + c, s3 + d]"
proof -
  have n: "[s0, s1, s2, s3] ! 0 = s0" "[s0, s1, s2, s3] ! 1 = s1"
    "[s0, s1, s2, s3] ! 2 = s2" "[s0, s1, s2, s3] ! 3 = s3"
    by simp_all
  show ?thesis
    unfolding md5_chunk_def Let_def assms(1) fold_64 n assms(2-5) by simp
qed

lemma md5_padded_abc:
  "md5_checkSum (bytes ''abc'') =
     concat (map LEPutUint32 (md5_block md5_init
      [0x61, 0x62, 0x63, 0x80, 0x00, 0x00, 0x00, 0x00, 0x00, 0x00, 0x00, 0x00, 0x00, 0x00,
       0x00, 0x00, 0x00, 0x00, 0x00, 0x00, 0x00, 0x00, 0x00, 0x00, 0x00, 0x00, 0x00, 0x00,
       0x00, 0x00, 0x00, 0x00, 0x00, 0x00, 0x00, 0x00, 0x00, 0x00, 0x00, 0x00, 0x00, 0x00,
       0x00, 0x00, 0x00, 0x00, 0x00, 0x00, 0x00, 0x00, 0x00, 0x00, 0x00, 0x00, 0x00, 0x00,
       0x18, 0x00, 0x00, 0x00, 0x00, 0x00, 0x00, 0x00]))"
  by (simp add: md5_checkSum_def bytes_def LEPutUint64_def replicate_numeral norm8)

lemma md5_words_abc:
  "map (\<lambda>i. LEUint32 (drop (i * 4)
      [0x61, 0x62, 0x63, 0x80, 0x00, 0x00, 0x00, 0x00, 0x00, 0x00, 0x00, 0x00, 0x00, 0x00,
       0x00, 0x00, 0x00, 0x00, 0x00, 0x00, 0x00, 0x00, 0x00, 0x00, 0x00, 0x00, 0x00, 0x00,
       0x00, 0x00, 0x00, 0x00, 0x00, 0x00, 0x00, 0x00, 0x00, 0x00, 0x00, 0x00, 0x00, 0x00,
       0x00, 0x00, 0x00, 0x00, 0x00, 0x00, 0x00, 0x00, 0x00, 0x00, 0x00, 0x00, 0x00, 0x00,
       0x18, 0x00, 0x00, 0x00, 0x00, 0x00, 0x00, 0x00])) [0..<16] =
      [0x80636261, 0x00000000, 0x00000000, 0x00000000, 0x00000000, 0x00000000, 0x00000000,
       0x00000000, 0x00000000, 0x00000000, 0x00000000, 0x00000000, 0x00000000, 0x00000000,
       0x00000018, 0x00000000]"
  by (simp add: LEUint32_def upt_rec)

lemma md5_rounds_abc_0:
  "fold md5_step [0..<16]
     ([0x80636261, 0x00000000, 0x00000000, 0x00000000, 0x00000000, 0x00000000, 0x00000000,
      0x00000000, 0x00000000, 0x00000000, 0x00000000, 0x00000000, 0x00000000, 0x00000000,
      0x00000018, 0x00000000], 0x67452301, 0xefcdab89, 0x98badcfe, 0x10325476) =
     ([0x80636261, 0x00000000, 0x00000000, 0x00000000, 0x00000000, 0x00000000, 0x00000000,
      0x00000000, 0x00000000, 0x00000000, 0x00000000, 0x00000000, 0x00000000, 0x00000000,
      0x00000018, 0x00000000], 0xdda9b9a6, 0x72aff2e0, 0xe396856b, 0xa1051895)"
  by (simp add: fold_upt_step md5_step_eval md5_T_def md5_shift_def rotl_numeral_any add32_numeral)

lemma md5_rounds_abc_16:
  "fold md5_step [16..<32]
     ([0x80636261, 0x00000000, 0x00000000, 0x00000000, 0x00000000, 0x00000000, 0x00000000,
      0x00000000, 0x00000000, 0x00000000, 0x00000000, 0x00000000, 0x00000000, 0x00000000,
      0x00000018, 0x00000000], 0xdda9b9a6, 0x72aff2e0, 0xe396856b, 0xa1051895) =
     ([0x80636261, 0x00000000, 0x00000000, 0x00000000, 0x00000000, 0x00000000, 0x00000000,
      0x00000000, 0x00000000, 0x00000000, 0x00000000, 0x00000000, 0x00000000, 0x00000000,
      0x00000018, 0x00000000], 0x790a77fb, 0x726342d3, 0xa62884aa, 0x9f47e4f8)"
  by (simp add: fold_upt_step md5_step_eval md5_T_def md5_shift_def rotl_numeral_any add32_numeral)

lemma md5_rounds_abc_32:
  "fold md5_step [32..<48]
     ([0x80636261, 0x00000000, 0x00000000, 0x00000000, 0x00000000, 0x00000000, 0x00000000,
      0x00000000, 0x00000000, 0x00000000, 0x00000000, 0x00000000, 0x00000000, 0x00000000,
      0x00000018, 0x00000000], 0x790a77fb, 0x726342d3, 0xa62884aa, 0x9f47e4f8) =
     ([0x80636261, 0x00000000, 0x00000000, 0x00000000, 0x00000000, 0x00000000, 0x00000000,
      0x00000000, 0x00000000, 0x00000000, 0x00000000, 0x00000000, 0x00000000, 0x00000000,
      0x00000018, 0x00000000], 0x7f2e507b, 0x7beb9700, 0x8fae6399, 0x99d9679d)"
  by (simp add: fold_upt_step md5_step_eval md5_T_def md5_shift_def rotl_numeral_any add32_numeral)

lemma md5_rounds_abc_48:
  "fold md5_step [48..<64]
     ([0x80636261, 0x00000000, 0x00000000, 0x00000000, 0x00000000, 0x00000000, 0x00000000,
      0x00000000, 0x00000000, 0x00000000, 0x00000000, 0x00000000, 0x00000000, 0x00000000,
      0x00000018, 0x00000000], 0x7f2e507b, 0x7beb9700, 0x8fae6399, 0x99d9679d) =
     ([0x80636261, 0x00000000, 0x00000000, 0x00000000, 0x00000000, 0x00000000, 0x00000000,
      0x00000000, 0x00000000, 0x00000000, 0x00000000, 0x00000000, 0x00000000, 0x00000000,
      0x00000018, 0x00000000], 0x310ade8f, 0xc08226b3, 0xe484b9d8, 0x624d8cb2)"
  by (simp add: fold_upt_step md5_step_eval md5_T_def md5_shift_def rotl_numeral_any add32_numeral)

lemma md5_chunk_abc:
  "md5_chunk [0x67452301, 0xefcdab89, 0x98badcfe, 0x10325476]
     [0x61, 0x62, 0x63, 0x80, 0x00, 0x00, 0x00, 0x00, 0x00, 0x00, 0x00, 0x00, 0x00, 0x00, 0x00,
      0x00, 0x00, 0x00, 0x00, 0x00, 0x00, 0x00, 0x00, 0x00, 0x00, 0x00, 0x00, 0x00, 0x00, 0x00,
      0x00, 0x00, 0x00, 0x00, 0x00, 0x00, 0x00, 0x00, 0x00, 0x00, 0x00, 0x00, 0x00, 0x00, 0x00,
      0x00, 0x00, 0x00, 0x00, 0x00, 0x00, 0x00, 0x00, 0x00, 0x00, 0x00, 0x18, 0x00, 0x00, 0x00,
      0x00, 0x00, 0x00, 0x00] =
     [0x98500190, 0xb04fd23c, 0x7d3f96d6, 0x727fe128]"
  using md5_chunk_rounds [OF md5_words_abc md5_rounds_abc_0 md5_rounds_abc_16
      md5_rounds_abc_32 md5_rounds_abc_48]
  by (simp add: norm32)

text \<open>The digest of \<^verbatim>\<open>"abc"\<close> in the test suite of RFC 1321.\<close>

lemma md5_digest_abc:
  "md5_checkSum (bytes ''abc'') =
     [0x90, 0x01, 0x50, 0x98, 0x3c, 0xd2, 0x4f, 0xb0, 0xd6, 0x96, 0x3f, 0x7d, 0x28, 0xe1, 0x7f,
      0x72]"
  unfolding md5_padded_abc md5_init_def
  by (simp add: md5_block.simps md5_chunk_abc LEPutUint32_def)


end
